theory Spec2Isabelle
  imports Main "HOL-Library.AList" "HOL-Library.Char_ord" "HOL-Library.List_Lexorder"
    "HOL-Library.Product_Lexorder"
begin

section \<open>JavaScript values used by the store\<close>

text \<open>
  A plain JavaScript object used as a dictionary (\<open>Record<string, T>\<close>) is the association
  list of its own properties, with pairwise distinct keys, in insertion order. For a key
  that the object holds, \<open>o[k]\<close> is \<open>map_of o k\<close>; \<open>o[k] = v\<close> is \<open>AList.update k v o\<close> (an
  existing key keeps its place, a new key goes last), \<open>delete o[k]\<close> is \<open>AList.delete k o\<close>
  and \<open>Object.keys(o)\<close> is \<open>map fst o\<close>. (JavaScript lists integer-like keys first; no
  result below depends on where such a key stands.)
\<close>

type_synonym 'v js_object = "(string \<times> 'v) list"

text \<open>
  A key that the object does not hold is looked up in \<open>Object.prototype\<close>, which every
  object literal \<open>{}\<close> inherits from. Its twelve properties are functions and, for
  \<open>__proto__\<close>, the prototype object itself: built-in objects, all truthy, with no property
  \<open>id\<close> and no enumerable property of their own. \<open>js_get o k\<close> is \<open>o[k]\<close> with the three
  cases told apart: a value of the object's own, a built-in object that it inherits, or
  \<open>undefined\<close>. The built-in objects are taken as the language defines them; what the
  program writes on one of them is outside this development. Where a handler below reads
  \<open>o[k]\<close> as \<open>map_of o k\<close>, the key is taken not to be one of the twelve names.
\<close>

definition object_prototype_properties :: "string list" where
  "object_prototype_properties =
     [''constructor'', ''__defineGetter__'', ''__defineSetter__'', ''hasOwnProperty'',
      ''__lookupGetter__'', ''__lookupSetter__'', ''isPrototypeOf'', ''propertyIsEnumerable'',
      ''toString'', ''valueOf'', ''__proto__'', ''toLocaleString'']"

datatype 'v property = Own 'v | Inherited | Undefined

definition js_get :: "'v js_object \<Rightarrow> string \<Rightarrow> 'v property" where
  "js_get obj k =
     (case map_of obj k of
        Some v \<Rightarrow> Own v
      | None \<Rightarrow> if k \<in> set object_prototype_properties then Inherited else Undefined)"

text \<open>\<open>Object.assign(target, source)\<close>: every own key of the source is written to the target.\<close>

definition object_assign :: "'v js_object \<Rightarrow> 'v js_object \<Rightarrow> 'v js_object" where
  "object_assign target source = foldl (\<lambda>t (k, v). AList.update k v t) target source"

text \<open>\<open>array.findIndex(p)\<close>: the first index whose element satisfies \<open>p\<close>; \<open>None\<close> is \<open>-1\<close>.\<close>

fun findIndex :: "('a \<Rightarrow> bool) \<Rightarrow> 'a list \<Rightarrow> nat option" where
  "findIndex p [] = None"
| "findIndex p (x # xs) =
     (if p x then Some 0 else (case findIndex p xs of None \<Rightarrow> None | Some i \<Rightarrow> Some (Suc i)))"

section \<open>Ordered dictionary (src/Store/make-ordered-dictionary.ts)\<close>

text \<open>
  \<open>makeOrderedDictionary\<close> keeps an array of items and an object \<open>dict\<close> from identity to item.
  Both hold references to the same JavaScript objects, and \<open>updateAssign\<close> mutates an item
  in place, so the items live in an explicit store \<open>objs\<close>: a reference is an index into
  \<open>objs\<close>, \<open>array\<close> and \<open>dict\<close> hold references, and an item handed to the dictionary is
  allocated at the end of \<open>objs\<close>.
\<close>

datatype UpsertMode = Append | Prepend

record 'a ordered_dictionary =
  objs :: "'a list"
  array :: "nat list"
  dict :: "nat js_object"

definition makeOrderedDictionary :: "'a ordered_dictionary" where
  "makeOrderedDictionary = \<lparr> objs = [], array = [], dict = [] \<rparr>"

text \<open>Reading a reference; every reference the dictionary holds was allocated before.\<close>

definition od_deref :: "'a ordered_dictionary \<Rightarrow> nat \<Rightarrow> 'a option" where
  "od_deref d r = (if r < length (objs d) then Some (objs d ! r) else None)"

text \<open>\<open>get(id) = dict[id]\<close>\<close>

definition od_get :: "'a ordered_dictionary \<Rightarrow> string \<Rightarrow> 'a option" where
  "od_get d i = (case map_of (dict d) i of None \<Rightarrow> None | Some r \<Rightarrow> od_deref d r)"

text \<open>
  \<open>update(item)\<close>: the index of the first array element with the item's identity; when there
  is one, the array slot and the dict entry are set to the item. Every path ends in
  \<open>return false\<close>.
\<close>

definition od_update ::
  "('a \<Rightarrow> string) \<Rightarrow> 'a ordered_dictionary \<Rightarrow> 'a \<Rightarrow> 'a ordered_dictionary \<times> bool" where
  "od_update idGetter d item =
     (let i = idGetter item in
      case findIndex (\<lambda>r. map_option idGetter (od_deref d r) = Some i) (array d) of
        Some idx \<Rightarrow>
          (let r = length (objs d) in
           (d\<lparr> objs := objs d @ [item],
               array := (array d)[idx := r],
               dict := AList.update i r (dict d) \<rparr>, False))
      | None \<Rightarrow> (d, False))"

text \<open>\<open>upsert(item, mode)\<close>\<close>

definition od_upsert ::
  "('a \<Rightarrow> string) \<Rightarrow> 'a ordered_dictionary \<Rightarrow> 'a \<Rightarrow> UpsertMode \<Rightarrow> 'a ordered_dictionary" where
  "od_upsert idGetter d item mode =
     (let i = idGetter item in
      if od_get d i \<noteq> None then fst (od_update idGetter d item)
      else
        (let r = length (objs d) in
         d\<lparr> objs := objs d @ [item],
            array := (case mode of Append \<Rightarrow> array d @ [r] | Prepend \<Rightarrow> r # array d),
            dict := AList.update i r (dict d) \<rparr>))"

text \<open>\<open>remove(item)\<close>: \<open>array.splice(idx, 1)\<close> and \<open>delete dict[id]\<close>.\<close>

definition od_remove ::
  "('a \<Rightarrow> string) \<Rightarrow> 'a ordered_dictionary \<Rightarrow> 'a \<Rightarrow> 'a ordered_dictionary \<times> bool" where
  "od_remove idGetter d item =
     (let i = idGetter item in
      case findIndex (\<lambda>r. map_option idGetter (od_deref d r) = Some i) (array d) of
        Some idx \<Rightarrow>
          (d\<lparr> array := take idx (array d) @ drop (Suc idx) (array d),
              dict := AList.delete i (dict d) \<rparr>, True)
      | None \<Rightarrow> (d, False))"

text \<open>
  \<open>updateAssign(id, update)\<close>: \<open>Object.assign(item, update)\<close> on the item found by \<open>get(id)\<close>
  (the parameter \<open>assign\<close> is \<open>Object.assign\<close> at the item type), then the dict entry is
  moved to the item's identity after the merge.
\<close>

definition od_updateAssign ::
  "('a \<Rightarrow> string) \<Rightarrow> ('a \<Rightarrow> 'u \<Rightarrow> 'a) \<Rightarrow> 'a ordered_dictionary \<Rightarrow> string \<Rightarrow> 'u
     \<Rightarrow> 'a ordered_dictionary \<times> bool" where
  "od_updateAssign idGetter assign d i u =
     (case map_of (dict d) i of
        None \<Rightarrow> (d, False)
      | Some r \<Rightarrow>
          (case od_deref d r of
             None \<Rightarrow> (d, False)
           | Some item \<Rightarrow>
               (let item' = assign item u in
                (d\<lparr> objs := (objs d)[r := item'],
                    dict := AList.update (idGetter item') r (AList.delete i (dict d)) \<rparr>, True))))"

text \<open>\<open>clear()\<close>\<close>

definition od_clear :: "'a ordered_dictionary \<Rightarrow> 'a ordered_dictionary" where
  "od_clear d = d\<lparr> array := [], dict := [] \<rparr>"

text \<open>\<open>toJSON()\<close> returns the array: the items in array order.\<close>

definition od_toJSON :: "'a ordered_dictionary \<Rightarrow> 'a list" where
  "od_toJSON d = List.map_filter (od_deref d) (array d)"

text \<open>
  \<open>fromJSON(newItems)\<close>: the array becomes the new items, the dict is emptied and then
  filled item by item, a later item overwriting an earlier one of the same identity.
\<close>

definition od_fromJSON ::
  "('a \<Rightarrow> string) \<Rightarrow> 'a ordered_dictionary \<Rightarrow> 'a list \<Rightarrow> 'a ordered_dictionary" where
  "od_fromJSON idGetter d newItems =
     (let base = length (objs d);
          refs = map (\<lambda>k. base + k) [0..<length newItems] in
      \<lparr> objs = objs d @ newItems,
        array = refs,
        dict = foldl (\<lambda>t (item, r). AList.update (idGetter item) r t) [] (zip newItems refs) \<rparr>)"

section \<open>Bounded object repository (src/Store/object-repository.ts)\<close>

text \<open>
  \<open>entityMap\<close> is a JavaScript \<open>Map\<close>: it iterates in insertion order, \<open>set\<close> on a key it
  holds replaces the value where the key stands and on a new key adds the entry last,
  \<open>delete\<close> removes the entry. An association list with distinct keys does the same.
\<close>

record 'a object_repository =
  entityMap :: "'a js_object"
  maxSize :: nat

text \<open>The constructor: \<open>new Map(Object.entries(entities))\<close> and \<open>maxSize = 1000\<close>.\<close>

definition new_ObjectRepository :: "'a js_object \<Rightarrow> 'a object_repository" where
  "new_ObjectRepository entities = \<lparr> entityMap = entities, maxSize = 1000 \<rparr>"

definition repo_findById :: "'a object_repository \<Rightarrow> string \<Rightarrow> 'a option" where
  "repo_findById r i = map_of (entityMap r) i"

definition repo_findAll :: "'a object_repository \<Rightarrow> 'a list" where
  "repo_findAll r = map snd (entityMap r)"

definition repo_count :: "'a object_repository \<Rightarrow> nat" where
  "repo_count r = length (entityMap r)"

definition repo_toJSON :: "'a object_repository \<Rightarrow> 'a list" where
  "repo_toJSON r = repo_findAll r"

text \<open>
  The loop of \<open>cleanup\<close>: \<open>for (let i = 0; i < keys.length / 2; i++) entityMap.delete(keys[i])\<close>.
  The division is the division of JavaScript numbers, so \<open>i < keys.length / 2\<close> holds exactly
  when \<open>2 * i < keys.length\<close>; then \<open>keys[i]\<close> is in range.
\<close>

function cleanup_loop :: "string list \<Rightarrow> nat \<Rightarrow> 'a js_object \<Rightarrow> 'a js_object" where
  "cleanup_loop ks i m =
     (if 2 * i < length ks then cleanup_loop ks (Suc i) (AList.delete (ks ! i) m) else m)"
  by pat_completeness auto
termination
  by (relation "measure (\<lambda>(ks, i, m). length ks - i)") auto

declare cleanup_loop.simps [simp del]

definition repo_cleanup :: "'a object_repository \<Rightarrow> 'a object_repository" where
  "repo_cleanup r =
     (if length (entityMap r) > maxSize r
      then r\<lparr> entityMap := cleanup_loop (map fst (entityMap r)) 0 (entityMap r) \<rparr>
      else r)"

text \<open>\<open>upsertById(id, entity)\<close> stores a shallow copy of the entity (the same value) and cleans up.\<close>

definition repo_upsertById :: "'a object_repository \<Rightarrow> string \<Rightarrow> 'a \<Rightarrow> 'a object_repository" where
  "repo_upsertById r i entity = repo_cleanup (r\<lparr> entityMap := AList.update i entity (entityMap r) \<rparr>)"

text \<open>\<open>deleteById(id)\<close> returns what \<open>Map.delete\<close> returns: whether the key was there.\<close>

definition repo_deleteById :: "'a object_repository \<Rightarrow> string \<Rightarrow> 'a object_repository \<times> bool" where
  "repo_deleteById r i =
     (r\<lparr> entityMap := AList.delete i (entityMap r) \<rparr>, map_of (entityMap r) i \<noteq> None)"

text \<open>Upserting a list of records, one after the other.\<close>

definition repo_upsert_all ::
  "'a object_repository \<Rightarrow> (string \<times> 'a) list \<Rightarrow> 'a object_repository" where
  "repo_upsert_all r recs = foldl (\<lambda>r (i, e). repo_upsertById r i e) r recs"

text \<open>A sample input: 1001 records under the distinct identities \<open>''''\<close>, \<open>''a''\<close>, \<open>''aa''\<close>, ...\<close>

definition sample_records :: "(string \<times> nat) list" where
  "sample_records = map (\<lambda>n. (replicate n CHR ''a'', n)) [0..<1001]"

section \<open>Numbers and strings of JavaScript\<close>

text \<open>
  A JavaScript number that the store reads or writes is an integer or \<open>NaN\<close>. Strings are
  lists of characters. \<open>digit_chars ! d\<close> is the digit that \<open>Number.prototype.toString\<close>
  writes for \<open>d\<close>.
\<close>

datatype js_number = Num int | NaN

definition digit_chars :: string where
  "digit_chars = ''0123456789abcdefghijklmnopqrstuvwxyz''"

text \<open>
  The digits of a natural number \<open>n\<close> in a radix, most significant first, without leading
  zeros: what \<open>n.toString(radix)\<close> writes for a number \<open>n\<close> below \<open>2^53\<close>. \<open>n.toString()\<close> and
  the template literal \<open>`${n}`\<close> use radix 10.
\<close>

function nat_toString :: "nat \<Rightarrow> nat \<Rightarrow> string" where
  "nat_toString radix n =
     (if n < radix \<or> radix < 2 then [digit_chars ! n]
      else nat_toString radix (n div radix) @ [digit_chars ! (n mod radix)])"
  by pat_completeness auto
termination
  by (relation "measure (\<lambda>(radix, n). n)") auto

text \<open>An integer: a negative one is written with a minus sign.\<close>

definition int_toString :: "nat \<Rightarrow> int \<Rightarrow> string" where
  "int_toString radix n =
     (if n < 0 then CHR ''-'' # nat_toString radix (nat (- n)) else nat_toString radix (nat n))"

text \<open>\<open>s.padStart(n, c)\<close> with a one-character filler.\<close>

definition padStart :: "nat \<Rightarrow> char \<Rightarrow> string \<Rightarrow> string" where
  "padStart n c s = replicate (n - length s) c @ s"

text \<open>
  \<open>s.split(sep)\<close> for a separator of one character: the pieces between the separators, at
  least one piece.
\<close>

function split_char :: "char \<Rightarrow> string \<Rightarrow> string list" where
  "split_char sep s =
     (case dropWhile (\<lambda>c. c \<noteq> sep) s of
        [] \<Rightarrow> [s]
      | _ # rest \<Rightarrow> takeWhile (\<lambda>c. c \<noteq> sep) s # split_char sep rest)"
  by pat_completeness auto
termination
proof (relation "measure (\<lambda>(sep, s). length s)")
  fix sep :: char and s x21 x22
  assume "dropWhile (\<lambda>c. c \<noteq> sep) s = x21 # x22"
  then have "length (x21 # x22) \<le> length s"
    by (metis length_dropWhile_le)
  then show "((sep, x22), (sep, s)) \<in> measure (\<lambda>(sep, s). length s)"
    by simp
qed simp

text \<open>The value of a digit in a radix, and of a string of digits.\<close>

definition digit_value :: "nat \<Rightarrow> char \<Rightarrow> nat option" where
  "digit_value radix c =
     (case findIndex (\<lambda>x. x = c) (take radix digit_chars) of
        Some d \<Rightarrow> Some d
      | None \<Rightarrow> (case findIndex (\<lambda>x. x = c) (take (radix - 10) ''ABCDEFGHIJKLMNOPQRSTUVWXYZ'') of
                   Some d \<Rightarrow> Some (10 + d)
                 | None \<Rightarrow> None))"

definition digits_value :: "nat \<Rightarrow> string \<Rightarrow> nat" where
  "digits_value radix ds =
     foldl (\<lambda>acc c. acc * radix + (case digit_value radix c of Some d \<Rightarrow> d | None \<Rightarrow> 0)) 0 ds"

definition is_white_space :: "char \<Rightarrow> bool" where
  "is_white_space c = (c \<in> set [CHR 0x09, CHR 0x0A, CHR 0x0B, CHR 0x0C, CHR 0x0D, CHR '' ''])"

text \<open>
  \<open>parseInt(s)\<close> without a radix: leading white space is skipped, then an optional sign, then
  an optional \<open>0x\<close> (radix 16, otherwise 10), then the longest run of digits; \<open>NaN\<close> when that
  run is empty. (The result is exact below \<open>2^53\<close>.)
\<close>

definition js_parseInt :: "string \<Rightarrow> js_number" where
  "js_parseInt s =
     (let t = dropWhile is_white_space s;
          neg = (take 1 t = ''-'');
          t1 = (if take 1 t = ''-'' \<or> take 1 t = ''+'' then drop 1 t else t);
          hex = (take 2 t1 = ''0x'' \<or> take 2 t1 = ''0X'');
          radix = (if hex then 16 else 10);
          t2 = (if hex then drop 2 t1 else t1);
          ds = takeWhile (\<lambda>c. digit_value radix c \<noteq> None) t2
      in if ds = [] then NaN
         else Num ((if neg then - 1 else 1) * int (digits_value radix ds)))"

text \<open>
  Unary plus on a non-empty string, \<open>+s\<close>: a string of decimal digits is its value. Every other
  string gives \<open>NaN\<close> here; JavaScript also reads signs, fractions, exponents, prefixed
  literals and surrounding white space, whose values no property below uses.
\<close>

definition js_to_number :: "string \<Rightarrow> js_number" where
  "js_to_number s =
     (if s \<noteq> [] \<and> (\<forall>c \<in> set s. digit_value 10 c \<noteq> None) then Num (int (digits_value 10 s))
      else NaN)"

section \<open>Identifiers (WABinary/jid-utils)\<close>

text \<open>
  \<open>WAJIDDomains\<close>: \<open>WHATSAPP = 0\<close>, \<open>LID = 1\<close>, \<open>HOSTED = 128\<close>, \<open>HOSTED_LID = 129\<close>.
  \<open>FullJid\<close>: an absent \<open>device\<close> is \<open>None\<close>.
\<close>

record FullJid =
  user :: string
  server :: string
  domainType :: js_number
  device :: "js_number option"

text \<open>
  The numbers handed to \<open>jidEncode\<close> are the safe integers that are not negative: the
  natural numbers below \<open>2^53\<close> (\<open>Number.MAX_SAFE_INTEGER\<close> is \<open>2^53 - 1\<close>). A number holds
  each of them exactly, and the template literal \<open>`${n}`\<close> writes all its decimal digits.
  Beyond them not every natural number is a number, and from \<open>1e21\<close> on the template
  literal writes a number in exponent notation (\<open>1e+21\<close>), of which \<open>parseInt\<close> reads the
  first digit only.
\<close>

typedef safe_integer = "{n :: nat. n < 2 ^ 53}"
  morphisms number_value SafeInteger
  by (rule exI[of _ 0]) simp

text \<open>
  \<open>jidEncode(user, server, device, agent)\<close>. The user is a string or \<open>null\<close> (\<open>None\<close>); device and
  agent are safe integers or absent (\<open>None\<close>). \<open>user || ''''\<close> is the empty string for \<open>null\<close>
  and \<open>!!agent\<close>, \<open>!!device\<close> are false for \<open>0\<close> and for an absent argument.
\<close>

definition jidEncode ::
  "string option \<Rightarrow> string \<Rightarrow> safe_integer option \<Rightarrow> safe_integer option \<Rightarrow> string" where
  "jidEncode usr srv dev agent =
     (case usr of None \<Rightarrow> [] | Some u \<Rightarrow> u)
     @ (case agent of
          None \<Rightarrow> []
        | Some a \<Rightarrow> if number_value a \<noteq> 0 then ''_'' @ nat_toString 10 (number_value a) else [])
     @ (case dev of
          None \<Rightarrow> []
        | Some d \<Rightarrow> if number_value d \<noteq> 0 then '':'' @ nat_toString 10 (number_value d) else [])
     @ ''@'' @ srv"

text \<open>
  \<open>jidDecode(jid)\<close>; \<open>None\<close> as argument is \<open>undefined\<close>, \<open>None\<close> as result is \<open>undefined\<close>.
  The destructuring \<open>[a, b] = s.split(c)\<close> takes the first two pieces, \<open>b\<close> being \<open>undefined\<close>
  when there is one piece only; an empty string is falsy as an undefined one is.
\<close>

definition jidDecode :: "string option \<Rightarrow> FullJid option" where
  "jidDecode jid =
     (case jid of
        None \<Rightarrow> None
      | Some j \<Rightarrow>
         (case findIndex (\<lambda>c. c = CHR ''@'') j of
            None \<Rightarrow> None
          | Some sepIdx \<Rightarrow>
             (let srv = drop (sepIdx + 1) j;
                  userCombined = take sepIdx j;
                  parts = split_char CHR '':'' userCombined;
                  userAgent = hd parts;
                  dev = (case tl parts of [] \<Rightarrow> None | x # _ \<Rightarrow> Some x);
                  parts2 = split_char CHR ''_'' userAgent;
                  usr = hd parts2;
                  agent = (case tl parts2 of [] \<Rightarrow> None | x # _ \<Rightarrow> Some x);
                  domain =
                    (if srv = ''lid'' then Num 1
                     else if srv = ''hosted'' then Num 128
                     else if srv = ''hosted.lid'' then Num 129
                     else (case agent of
                             None \<Rightarrow> Num 0
                           | Some a \<Rightarrow> if a \<noteq> [] then js_parseInt a else Num 0))
              in Some \<lparr> user = usr, server = srv, domainType = domain,
                        device = (case dev of
                                    None \<Rightarrow> None
                                  | Some x \<Rightarrow> if x \<noteq> [] then Some (js_to_number x) else None) \<rparr>)))"

text \<open>\<open>jidNormalizedUser(jid)\<close>\<close>

definition jidNormalizedUser :: "string option \<Rightarrow> string" where
  "jidNormalizedUser jid =
     (case jidDecode jid of
        None \<Rightarrow> []
      | Some result \<Rightarrow>
          jidEncode (Some (user result))
            (if server result = ''c.us'' then ''s.whatsapp.net'' else server result) None None)"

declare nat_toString.simps [simp del] split_char.simps [simp del]

text \<open>
  Auxiliary notions for the proofs about identifiers: the decimal digits, and the two
  optional pieces \<open>_agent\<close> and \<open>:device\<close> that \<open>jidEncode\<close> writes.
\<close>

definition is_dec_digit :: "char \<Rightarrow> bool" where
  "is_dec_digit c = (c \<in> set ''0123456789'')"

definition agent_part :: "nat option \<Rightarrow> string" where
  "agent_part agent = (case agent of None \<Rightarrow> [] | Some a \<Rightarrow> if a \<noteq> 0 then ''_'' @ nat_toString 10 a else [])"

definition device_part :: "nat option \<Rightarrow> string" where
  "device_part dev = (case dev of None \<Rightarrow> [] | Some d \<Rightarrow> if d \<noteq> 0 then '':'' @ nat_toString 10 d else [])"

section \<open>Entities of the store\<close>

text \<open>
  Modelled from the spec: the entity types (\<open>Chat\<close>, \<open>Contact\<close>, \<open>WAMessage\<close>,
  \<open>GroupMetadata\<close>, \<open>Label\<close>, \<open>LabelAssociation\<close>) are declared in \<open>../Types\<close>, which is not
  under src/. The records below hold the fields that the store reads or writes, with the
  types the data model gives them. A field that an object does not have (\<open>undefined\<close>) is
  \<open>None\<close>. An update that an event carries (a partial entity) is a record of the same kind:
  a field that is \<open>None\<close> is a key the update does not have, and
  \<open>Object.assign(entity, update)\<close> overwrites the fields that the update has.
\<close>

definition assign_field :: "'a option \<Rightarrow> 'a option \<Rightarrow> 'a option" where
  "assign_field old new = (case new of None \<Rightarrow> old | Some v \<Rightarrow> Some v)"

record Chat =
  chat_id :: string
  pinned :: "bool option"
  archived :: "bool option"
  conversationTimestamp :: "int option"
  unreadCount :: "int option"

definition chat_assign :: "Chat \<Rightarrow> Chat \<Rightarrow> Chat" where
  "chat_assign c u =
     \<lparr> chat_id = chat_id u,
       pinned = assign_field (pinned c) (pinned u),
       archived = assign_field (archived c) (archived u),
       conversationTimestamp = assign_field (conversationTimestamp c) (conversationTimestamp u),
       unreadCount = assign_field (unreadCount c) (unreadCount u) \<rparr>"

record MessageKey =
  remoteJid :: "string option"
  key_id :: "string option"
  fromMe :: "bool option"

record WAMessage =
  msg_key :: MessageKey
  status :: "int option"
  messageTimestamp :: "int option"
  message :: "string option"

text \<open>The update of a \<open>messages.update\<close> event, a \<open>Partial<WAMessage>\<close>.\<close>

record WAMessageUpdate =
  upd_key :: "MessageKey option"
  upd_status :: "int option"
  upd_messageTimestamp :: "int option"
  upd_message :: "string option"

definition message_assign :: "WAMessage \<Rightarrow> WAMessageUpdate \<Rightarrow> WAMessage" where
  "message_assign m u =
     \<lparr> msg_key = (case upd_key u of None \<Rightarrow> msg_key m | Some k \<Rightarrow> k),
       status = assign_field (status m) (upd_status u),
       messageTimestamp = assign_field (messageTimestamp m) (upd_messageTimestamp u),
       message = assign_field (message m) (upd_message u) \<rparr>"

record Contact =
  contact_id :: string
  contact_name :: "string option"
  notify :: "string option"
  imgUrl :: "string option"

definition contact_assign :: "Contact \<Rightarrow> Contact \<Rightarrow> Contact" where
  "contact_assign c u =
     \<lparr> contact_id = contact_id u,
       contact_name = assign_field (contact_name c) (contact_name u),
       notify = assign_field (notify c) (notify u),
       imgUrl = assign_field (imgUrl c) (imgUrl u) \<rparr>"

record GroupParticipant =
  participant_id :: string
  admin :: "string option"

record GroupMetadata =
  group_id :: string
  subject :: "string option"
  participants :: "GroupParticipant list option"

definition group_assign :: "GroupMetadata \<Rightarrow> GroupMetadata \<Rightarrow> GroupMetadata" where
  "group_assign g u =
     \<lparr> group_id = group_id u,
       subject = assign_field (subject g) (subject u),
       participants = assign_field (participants g) (participants u) \<rparr>"

record Label =
  label_id :: string
  label_name :: "string option"
  color :: "int option"
  deleted :: "bool option"
  predefinedId :: "string option"

definition label_assign :: "Label \<Rightarrow> Label \<Rightarrow> Label" where
  "label_assign l u =
     \<lparr> label_id = label_id u,
       label_name = assign_field (label_name l) (label_name u),
       color = assign_field (color l) (color u),
       deleted = assign_field (deleted l) (deleted u),
       predefinedId = assign_field (predefinedId l) (predefinedId u) \<rparr>"

text \<open>
  \<open>LabelAssociation\<close> is a union of the chat associations (\<open>type = LabelAssociationType.Chat\<close>,
  with \<open>chatId\<close> and \<open>labelId\<close>) and the message associations (with \<open>chatId\<close>, \<open>messageId\<close> and
  \<open>labelId\<close>).
\<close>

datatype LabelAssociation =
    ChatLabelAssociation string string
  | MessageLabelAssociation string string string

text \<open>Truthiness of an optional boolean and of an optional number.\<close>

definition truthy_bool :: "bool option \<Rightarrow> bool" where
  "truthy_bool b = (b = Some True)"

definition truthy_int :: "int option \<Rightarrow> bool" where
  "truthy_int n = (case n of None \<Rightarrow> False | Some v \<Rightarrow> v \<noteq> 0)"

text \<open>A property key: \<open>o[k]\<close> with \<open>k\<close> undefined reads the key \<open>undefined\<close>.\<close>

definition property_key :: "string option \<Rightarrow> string" where
  "property_key k = (case k of None \<Rightarrow> ''undefined'' | Some s \<Rightarrow> s)"

section \<open>Parameters\<close>

text \<open>
  What the run-time, the configuration and the imports supply, as parameters.
  \<open>localeCompare\<close> is \<open>String.prototype.localeCompare\<close>, \<open>localeCompare cfg a b\<close> standing for
  \<open>a.localeCompare(b)\<close>: its result is negative, zero or positive, and which strings it
  ranks before which depends on the implementation and on the locale of the run-time (the
  language requires a consistent comparison and no more). \<open>profilePictureUrl\<close> is
  \<open>socket.profilePictureUrl\<close> (\<open>None\<close> when the configuration has no socket; awaited, so it
  is its result that counts; its argument is \<open>None\<close> when the handler passes \<open>undefined\<close>).
  \<open>md5_base64\<close> and \<open>toNumber\<close> are two functions of \<open>../Utils\<close>, which is not under src/:
  \<open>md5(Buffer.from(s, 'utf8')).toString('base64')\<close> and \<open>toNumber\<close>, the number of a timestamp
  that may be absent.
\<close>

record Config =
  localeCompare :: "string \<Rightarrow> string \<Rightarrow> int"
  profilePictureUrl :: "(string option \<Rightarrow> string option) option"
  md5_base64 :: "string \<Rightarrow> string"
  toNumber :: "int option \<Rightarrow> int"

section \<open>Sort keys (make-in-memory-store.ts)\<close>

text \<open>A key function with its comparison, as \<open>waChatKey(pin)\<close> returns them.\<close>

record 'a Comparable =
  key :: "'a \<Rightarrow> string"
  compare :: "string \<Rightarrow> string \<Rightarrow> int"

definition waChatKey :: "Config \<Rightarrow> bool \<Rightarrow> Chat Comparable" where
  "waChatKey cfg pin =
     \<lparr> key = (\<lambda>c.
         (if pin then (if truthy_bool (pinned c) then ''1'' else ''0'') else [])
         @ (if truthy_bool (archived c) then ''0'' else ''1'')
         @ (case conversationTimestamp c of
              None \<Rightarrow> []
            | Some t \<Rightarrow> if t \<noteq> 0 then padStart 8 CHR ''0'' (int_toString 16 t) else [])
         @ chat_id c),
       compare = (\<lambda>k1 k2. localeCompare cfg k2 k1) \<rparr>"

definition waMessageID :: "WAMessage \<Rightarrow> string" where
  "waMessageID m = (case key_id (msg_key m) of None \<Rightarrow> [] | Some i \<Rightarrow> i)"

definition waLabelAssociationKey :: "Config \<Rightarrow> LabelAssociation Comparable" where
  "waLabelAssociationKey cfg =
     \<lparr> key = (\<lambda>la. case la of
                  ChatLabelAssociation chatId labelId \<Rightarrow> chatId @ labelId
                | MessageLabelAssociation chatId messageId labelId \<Rightarrow> chatId @ messageId @ labelId),
       compare = (\<lambda>k1 k2. localeCompare cfg k2 k1) \<rparr>"

section \<open>Sorted keyed collection\<close>

text \<open>
  Modelled from the spec: the class \<open>KeyedDB\<close> of the package \<open>@adiwajshing/keyed-db\<close> is not
  under src/. The spec's sorted keyed collection is identity-keyed and exposes its members
  in the order of a \<open>(key, compare)\<close> pair: it is the list of its members, kept in that
  order. \<open>insertIfAbsent\<close> inserts the items whose identity is not present and returns the
  ones it inserted; \<open>upsert\<close> inserts or replaces, reordering as needed; \<open>update\<close> looks an
  item up by identity, applies the mutation and derives its position again, returning the
  mutated item or nothing; \<open>get\<close>, \<open>deleteById\<close>, \<open>all\<close>, \<open>clear\<close>; the snapshot is the
  sequence of members and restoring replaces the members by those of the snapshot.
\<close>

type_synonym 'a KeyedDB = "'a list"

text \<open>
  Modelled from the spec: an item takes its place in the order, before the first member
  that it does not sort after.
\<close>

fun kdb_insert :: "'a Comparable \<Rightarrow> 'a \<Rightarrow> 'a KeyedDB \<Rightarrow> 'a KeyedDB" where
  "kdb_insert C v [] = [v]"
| "kdb_insert C v (x # xs) =
     (if compare C (key C v) (key C x) \<le> 0 then v # x # xs else x # kdb_insert C v xs)"

text \<open>Modelled from the spec: \<open>get(id)\<close>, the member with the identity.\<close>

definition kdb_get :: "('a \<Rightarrow> string) \<Rightarrow> 'a KeyedDB \<Rightarrow> string \<Rightarrow> 'a option" where
  "kdb_get idGetter db i = find (\<lambda>x. idGetter x = i) db"

text \<open>Modelled from the spec: \<open>deleteById(id)\<close>\<close>

definition kdb_deleteById :: "('a \<Rightarrow> string) \<Rightarrow> 'a KeyedDB \<Rightarrow> string \<Rightarrow> 'a KeyedDB" where
  "kdb_deleteById idGetter db i = filter (\<lambda>x. idGetter x \<noteq> i) db"

text \<open>Modelled from the spec: \<open>upsert(...items)\<close> inserts or replaces, reordering as needed.\<close>

definition kdb_upsert :: "'a Comparable \<Rightarrow> ('a \<Rightarrow> string) \<Rightarrow> 'a KeyedDB \<Rightarrow> 'a list \<Rightarrow> 'a KeyedDB" where
  "kdb_upsert C idGetter db items =
     foldl (\<lambda>db v. kdb_insert C v (kdb_deleteById idGetter db (idGetter v))) db items"

text \<open>
  Modelled from the spec: \<open>insertIfAbsent(...items)\<close> inserts the items whose identity is not
  present and returns those it inserted.
\<close>

definition kdb_insertIfAbsent ::
  "'a Comparable \<Rightarrow> ('a \<Rightarrow> string) \<Rightarrow> 'a KeyedDB \<Rightarrow> 'a list \<Rightarrow> 'a KeyedDB \<times> 'a list" where
  "kdb_insertIfAbsent C idGetter db items =
     foldl (\<lambda>(db, inserted) v.
              if kdb_get idGetter db (idGetter v) \<noteq> None then (db, inserted)
              else (kdb_insert C v db, inserted @ [v]))
       (db, []) items"

text \<open>
  Modelled from the spec: \<open>update(id, mutatorFn)\<close> applies the mutation to the member with
  the identity, derives its position again and returns the mutated item, or nothing when
  the identity is not present.
\<close>

definition kdb_update ::
  "'a Comparable \<Rightarrow> ('a \<Rightarrow> string) \<Rightarrow> 'a KeyedDB \<Rightarrow> string \<Rightarrow> ('a \<Rightarrow> 'a) \<Rightarrow> 'a KeyedDB \<times> 'a option" where
  "kdb_update C idGetter db i f =
     (case kdb_get idGetter db i of
        None \<Rightarrow> (db, None)
      | Some v \<Rightarrow> (kdb_insert C (f v) (kdb_deleteById idGetter db i), Some (f v)))"

text \<open>Modelled from the spec: \<open>clear()\<close>\<close>

definition kdb_clear :: "'a KeyedDB" where
  "kdb_clear = []"

text \<open>Modelled from the spec: \<open>all()\<close>, the sorted sequence.\<close>

definition kdb_all :: "'a KeyedDB \<Rightarrow> 'a list" where
  "kdb_all db = db"

text \<open>Modelled from the spec: the snapshot.\<close>

definition kdb_toJSON :: "'a KeyedDB \<Rightarrow> 'a list" where
  "kdb_toJSON db = db"

text \<open>Modelled from the spec: restoring from a snapshot.\<close>

definition kdb_fromJSON :: "'a Comparable \<Rightarrow> ('a \<Rightarrow> string) \<Rightarrow> 'a list \<Rightarrow> 'a KeyedDB" where
  "kdb_fromJSON C idGetter items = kdb_upsert C idGetter kdb_clear items"

section \<open>The in-memory store (make-in-memory-store.ts)\<close>

text \<open>
  The state of \<open>makeInMemoryStore\<close>, for the default configuration (\<open>chatKey = waChatKey(true)\<close>,
  \<open>labelAssociationKey = waLabelAssociationKey\<close>). \<open>logged\<close> holds the messages handed to the
  logger, oldest first. Presence data and the values of the connection state are opaque
  strings.
\<close>

record Store =
  chats :: "Chat KeyedDB"
  messages :: "WAMessage ordered_dictionary js_object"
  contacts :: "Contact js_object"
  groupMetadata :: "GroupMetadata js_object"
  presences :: "string js_object js_object"
  state :: "string js_object"
  labels :: "Label object_repository"
  labelAssociations :: "LabelAssociation KeyedDB"
  logged :: "string list"

definition makeInMemoryStore :: Store where
  "makeInMemoryStore =
     \<lparr> chats = kdb_clear, messages = [], contacts = [], groupMetadata = [], presences = [],
       state = [(''connection'', ''close'')], labels = new_ObjectRepository [],
       labelAssociations = kdb_clear, logged = [] \<rparr>"

definition log_message :: "string \<Rightarrow> Store \<Rightarrow> Store" where
  "log_message msg s = s\<lparr> logged := logged s @ [msg] \<rparr>"

text \<open>
  \<open>proto.HistorySync.HistorySyncType\<close> of \<open>WAProto\<close>, which is not under src/: the sync
  types, of which the store tells \<open>ON_DEMAND\<close> from the others.
\<close>

datatype HistorySyncType =
  INITIAL_BOOTSTRAP | INITIAL_STATUS_V3 | FULL | RECENT | PUSH_NAME | NON_BLOCKING_DATA | ON_DEMAND

text \<open>
  \<open>assertMessageList(jid)\<close> creates the list of a chat when there is none; \<open>on_message_list\<close>
  is \<open>assertMessageList(jid)\<close> followed by an operation that changes the list it returns.
\<close>

definition assertMessageList ::
  "WAMessage ordered_dictionary js_object \<Rightarrow> string \<Rightarrow> WAMessage ordered_dictionary js_object" where
  "assertMessageList ms jid =
     (case map_of ms jid of None \<Rightarrow> AList.update jid makeOrderedDictionary ms | Some l \<Rightarrow> ms)"

definition on_message_list ::
  "WAMessage ordered_dictionary js_object \<Rightarrow> string
     \<Rightarrow> (WAMessage ordered_dictionary \<Rightarrow> WAMessage ordered_dictionary)
     \<Rightarrow> WAMessage ordered_dictionary js_object" where
  "on_message_list ms jid f =
     (let ms' = assertMessageList ms jid in
      case map_of ms' jid of None \<Rightarrow> ms' | Some l \<Rightarrow> AList.update jid (f l) ms')"

text \<open>
  \<open>contactsUpsert(newContacts)\<close> returns the set \<open>oldContacts\<close>: the keys held before that no
  new contact has. \<open>Object.assign({}, contact)\<close> is the contact itself.
\<close>

definition contactsUpsert :: "Contact js_object \<Rightarrow> Contact list \<Rightarrow> Contact js_object \<times> string list" where
  "contactsUpsert cs newContacts =
     foldl (\<lambda>(cs, oldContacts) contact.
              (AList.update (contact_id contact)
                 (case map_of cs (contact_id contact) of
                    None \<Rightarrow> contact
                  | Some c \<Rightarrow> contact_assign c contact) cs,
               removeAll (contact_id contact) oldContacts))
       (cs, map fst cs) newContacts"

definition labelsUpsert :: "Label object_repository \<Rightarrow> Label list \<Rightarrow> Label object_repository" where
  "labelsUpsert r newLabels = foldl (\<lambda>r l. repo_upsertById r (label_id l) l) r newLabels"

text \<open>\<open>getValidContacts()\<close> deletes the contacts whose key has no \<open>@\<close> and returns the keys left.\<close>

definition getValidContacts :: "Contact js_object \<Rightarrow> Contact js_object \<times> string list" where
  "getValidContacts cs =
     (let cs' = foldl (\<lambda>cs contact. if findIndex (\<lambda>c. c = CHR ''@'') contact = None
                                      then AList.delete contact cs else cs) cs (map fst cs)
      in (cs', map fst cs'))"

subsection \<open>The handlers of \<open>bind\<close>\<close>

text \<open>\<open>connection.update\<close>\<close>

definition on_connection_update :: "Store \<Rightarrow> string js_object \<Rightarrow> Store" where
  "on_connection_update s update = s\<lparr> state := object_assign (state s) update \<rparr>"

text \<open>\<open>chats.upsert\<close>\<close>

definition on_chats_upsert :: "Config \<Rightarrow> Store \<Rightarrow> Chat list \<Rightarrow> Store" where
  "on_chats_upsert cfg s newChats =
     s\<lparr> chats := kdb_upsert (waChatKey cfg True) chat_id (chats s) newChats \<rparr>"

text \<open>
  \<open>messaging-history.set\<close>. \<open>msg.key.remoteJid\<close> is used as a property key as it is.
\<close>

definition on_messaging_history_set ::
  "Config \<Rightarrow> Store \<Rightarrow> Chat list \<Rightarrow> Contact list \<Rightarrow> WAMessage list \<Rightarrow> bool
     \<Rightarrow> HistorySyncType option \<Rightarrow> Store" where
  "on_messaging_history_set cfg s newChats newContacts newMessages isLatest syncType =
     (if syncType = Some ON_DEMAND then s
      else
        (let s1 = (if isLatest then s\<lparr> chats := kdb_clear, messages := [] \<rparr> else s);
             s2 = log_message ''synced chats''
                    (s1\<lparr> chats := fst (kdb_insertIfAbsent (waChatKey cfg True) chat_id (chats s1)
                                          newChats) \<rparr>);
             (cs, oldContacts) = contactsUpsert (contacts s2) newContacts;
             s3 = log_message ''synced contacts''
                    (s2\<lparr> contacts := (if isLatest then foldl (\<lambda>cs jid. AList.delete jid cs) cs oldContacts
                                       else cs) \<rparr>);
             s4 = s3\<lparr> messages :=
                        foldl (\<lambda>ms msg. on_message_list ms (property_key (remoteJid (msg_key msg)))
                                          (\<lambda>l. od_upsert waMessageID l msg Prepend))
                          (messages s3) newMessages \<rparr>
         in log_message ''synced messages'' s4))"

text \<open>\<open>contacts.upsert\<close>\<close>

definition on_contacts_upsert :: "Store \<Rightarrow> Contact list \<Rightarrow> Store" where
  "on_contacts_upsert s newContacts = s\<lparr> contacts := fst (contactsUpsert (contacts s) newContacts) \<rparr>"

text \<open>
  \<open>contacts.update\<close>, one update of the loop, in parts. \<open>find_contact\<close> is
  \<open>contacts[update.id]\<close> and, when that is undefined, the fallback: \<open>getValidContacts()\<close>,
  the table \<open>contactHashes\<close>, and \<open>contacts[k]\<close> for the first key \<open>k\<close> whose hash is the
  update's id (for the empty key when there is none). It gives the store and what \<open>contact\<close>
  then is: the contact stored under a key (\<open>Own k\<close>), a built-in object that \<open>contacts\<close>
  inherits, or \<open>undefined\<close>.
\<close>

definition contactHashes :: "Config \<Rightarrow> string list \<Rightarrow> (string \<times> string) list" where
  "contactHashes cfg validContacts =
     map (\<lambda>contactId.
            (contactId,
             take 3 (md5_base64 cfg
               ((case jidDecode (Some contactId) of None \<Rightarrow> [] | Some d \<Rightarrow> user d)
                @ ''WA_ADD_NOTIF''))))
       validContacts"

definition find_contact :: "Config \<Rightarrow> Store \<Rightarrow> Contact \<Rightarrow> Store \<times> string property" where
  "find_contact cfg s update =
     (case js_get (contacts s) (contact_id update) of
        Own c \<Rightarrow> (s, Own (contact_id update))
      | Inherited \<Rightarrow> (s, Inherited)
      | Undefined \<Rightarrow>
          (let (cs, validContacts) = getValidContacts (contacts s);
               k = (case find (\<lambda>(a, b). b = contact_id update) (contactHashes cfg validContacts) of
                      None \<Rightarrow> []
                    | Some (a, b) \<Rightarrow> a)
           in (s\<lparr> contacts := cs \<rparr>,
               case js_get cs k of
                 Own c \<Rightarrow> Own k
               | Inherited \<Rightarrow> Inherited
               | Undefined \<Rightarrow> Undefined)))"

text \<open>\<open>socket ? await socket.profilePictureUrl(jid) : undefined\<close>\<close>

definition fetch_imgUrl :: "Config \<Rightarrow> string option \<Rightarrow> string option" where
  "fetch_imgUrl cfg jid = (case profilePictureUrl cfg of None \<Rightarrow> None | Some fetch \<Rightarrow> fetch jid)"

text \<open>
  \<open>update_contact\<close> is the branch \<open>if (contact)\<close> for the contact stored under the key \<open>k\<close>:
  \<open>contact.imgUrl = ...\<close> or \<open>delete contact.imgUrl\<close> changes that stored object.
  \<open>Object.assign(contacts[contact.id], contact)\<close> then assigns the contact to the one stored
  under \<open>contact.id\<close>. When \<open>contacts[contact.id]\<close> is undefined it throws a TypeError: the
  handler ends there (\<open>Inl\<close>) and the updates that follow are not processed. When it is a
  built-in object, the fields are written on that object and the store stays as it is;
  the built-in functions (all but the value of \<open>__proto__\<close>) have a read-only \<open>name\<close>, so
  that \<open>Object.assign\<close> throws a TypeError there when the contact has a name.
  (An \<open>imgUrl\<close> set to \<open>undefined\<close> counts as a field the contact does not have.)
\<close>

definition update_contact :: "Config \<Rightarrow> Store \<Rightarrow> Contact \<Rightarrow> string \<Rightarrow> Store + Store" where
  "update_contact cfg s update k =
     (case map_of (contacts s) k of
        None \<Rightarrow> Inr s
      | Some contact \<Rightarrow>
          (let contact' =
                 (if imgUrl update = Some ''changed''
                  then contact\<lparr> imgUrl := fetch_imgUrl cfg (Some (contact_id contact)) \<rparr>
                  else if imgUrl update = Some ''removed'' then contact\<lparr> imgUrl := None \<rparr>
                  else contact);
               cs1 = AList.update k contact' (contacts s)
           in case js_get cs1 (contact_id contact') of
                Undefined \<Rightarrow> Inl (s\<lparr> contacts := cs1 \<rparr>)
              | Inherited \<Rightarrow>
                  (if contact_id contact' \<noteq> ''__proto__'' \<and> contact_name contact' \<noteq> None
                   then Inl (s\<lparr> contacts := cs1 \<rparr>)
                   else Inr (s\<lparr> contacts := cs1 \<rparr>))
              | Own target \<Rightarrow>
                  Inr (s\<lparr> contacts := AList.update (contact_id contact')
                                        (contact_assign target contact') cs1 \<rparr>)))"

text \<open>
  \<open>update_builtin\<close> is the branch \<open>if (contact)\<close> when \<open>contact\<close> is a built-in object that
  \<open>contacts\<close> inherits (\<open>update.id\<close> is \<open>constructor\<close>, say). \<open>contact.imgUrl = ...\<close> writes on
  the built-in object and \<open>delete contact.imgUrl\<close> finds nothing to delete. \<open>contact.id\<close> is
  undefined, so the target of \<open>Object.assign\<close> is \<open>contacts[undefined]\<close>, the property
  \<open>undefined\<close>: when no contact is stored under it, \<open>Object.assign\<close> throws a TypeError and
  the handler ends (\<open>Inl\<close>); a contact stored under it receives the enumerable properties
  of the built-in object, which is the \<open>imgUrl\<close> just written, if any.
\<close>

definition update_builtin :: "Config \<Rightarrow> Store \<Rightarrow> Contact \<Rightarrow> Store + Store" where
  "update_builtin cfg s update =
     (case js_get (contacts s) (property_key None) of
        Undefined \<Rightarrow> Inl s
      | Inherited \<Rightarrow> Inr s
      | Own target \<Rightarrow>
          Inr (if imgUrl update = Some ''changed''
               then s\<lparr> contacts := AList.update (property_key None)
                                       (target\<lparr> imgUrl := fetch_imgUrl cfg None \<rparr>) (contacts s) \<rparr>
               else s))"

definition contacts_update_one :: "Config \<Rightarrow> Store \<Rightarrow> Contact \<Rightarrow> Store + Store" where
  "contacts_update_one cfg s update =
     (let (s1, found) = find_contact cfg s update
      in case found of
           Undefined \<Rightarrow> Inr (log_message ''got update for non-existant contact'' s1)
         | Own k \<Rightarrow> update_contact cfg s1 update k
         | Inherited \<Rightarrow> update_builtin cfg s1 update)"

fun on_contacts_update :: "Config \<Rightarrow> Store \<Rightarrow> Contact list \<Rightarrow> Store" where
  "on_contacts_update cfg s [] = s"
| "on_contacts_update cfg s (update # updates) =
     (case contacts_update_one cfg s update of
        Inl s' \<Rightarrow> s'
      | Inr s' \<Rightarrow> on_contacts_update cfg s' updates)"

text \<open>
  \<open>chats.update\<close>, one update of the loop: the callback handed to \<open>chats.update\<close> adds a
  positive \<open>unreadCount\<close> of the update to the chat's and assigns the update to the chat.
\<close>

definition chats_update_one :: "Config \<Rightarrow> Store \<Rightarrow> Chat \<Rightarrow> Store" where
  "chats_update_one cfg s update =
     (let (db, result) =
            kdb_update (waChatKey cfg True) chat_id (chats s) (chat_id update)
              (\<lambda>chat.
                 chat_assign chat
                   (if (case unreadCount update of None \<Rightarrow> False | Some n \<Rightarrow> n > 0)
                    then update\<lparr> unreadCount :=
                           Some ((case unreadCount chat of None \<Rightarrow> 0 | Some c \<Rightarrow> c)
                                 + (case unreadCount update of None \<Rightarrow> 0 | Some n \<Rightarrow> n)) \<rparr>
                    else update))
      in case result of
           None \<Rightarrow> log_message ''got update for non-existant chat'' (s\<lparr> chats := db \<rparr>)
         | Some c \<Rightarrow> s\<lparr> chats := db \<rparr>)"

definition on_chats_update :: "Config \<Rightarrow> Store \<Rightarrow> Chat list \<Rightarrow> Store" where
  "on_chats_update cfg s updates = foldl (chats_update_one cfg) s updates"

text \<open>\<open>labels.edit\<close>\<close>

definition on_labels_edit :: "Store \<Rightarrow> Label \<Rightarrow> Store" where
  "on_labels_edit s label =
     (if truthy_bool (deleted label) then s\<lparr> labels := fst (repo_deleteById (labels s) (label_id label)) \<rparr>
      else if repo_count (labels s) < 20
        then s\<lparr> labels := repo_upsertById (labels s) (label_id label) label \<rparr>
      else log_message ''Labels count exceed'' s)"

text \<open>
  \<open>labels.association\<close>; \<open>delete(item)\<close> of the sorted keyed collection removes the member
  with the item's composite key.
\<close>

definition on_labels_association :: "Config \<Rightarrow> Store \<Rightarrow> string \<Rightarrow> LabelAssociation \<Rightarrow> Store" where
  "on_labels_association cfg s type association =
     (if type = ''add''
        then s\<lparr> labelAssociations :=
                 kdb_upsert (waLabelAssociationKey cfg) (key (waLabelAssociationKey cfg))
                   (labelAssociations s) [association] \<rparr>
      else if type = ''remove''
        then s\<lparr> labelAssociations :=
                 kdb_deleteById (key (waLabelAssociationKey cfg)) (labelAssociations s)
                   (key (waLabelAssociationKey cfg) association) \<rparr>
      else log_message ''unknown label association operation'' s)"

text \<open>\<open>presence.update\<close>\<close>

definition on_presence_update :: "Store \<Rightarrow> string \<Rightarrow> string js_object \<Rightarrow> Store" where
  "on_presence_update s i update =
     s\<lparr> presences :=
          AList.update i
            (object_assign (case map_of (presences s) i of None \<Rightarrow> [] | Some p \<Rightarrow> p) update)
            (presences s) \<rparr>"

text \<open>\<open>chats.delete\<close>\<close>

definition on_chats_delete :: "Store \<Rightarrow> string list \<Rightarrow> Store" where
  "on_chats_delete s deletions =
     foldl (\<lambda>s item. if kdb_get chat_id (chats s) item \<noteq> None
                      then s\<lparr> chats := kdb_deleteById chat_id (chats s) item \<rparr> else s)
       s deletions"

text \<open>
  \<open>messages.upsert\<close>. \<open>ev.emit('chats.upsert', ...)\<close> runs the \<open>chats.upsert\<close> handler at once.
\<close>

definition on_messages_upsert :: "Config \<Rightarrow> Store \<Rightarrow> WAMessage list \<Rightarrow> string \<Rightarrow> Store" where
  "on_messages_upsert cfg s newMessages type =
     (if type = ''append'' \<or> type = ''notify'' then
        foldl (\<lambda>s msg.
                 (let jid = jidNormalizedUser (remoteJid (msg_key msg));
                      s1 = s\<lparr> messages := on_message_list (messages s) jid
                                             (\<lambda>l. od_upsert waMessageID l msg Append) \<rparr>
                  in if type = ''notify'' \<and> kdb_get chat_id (chats s1) jid = None
                     then on_chats_upsert cfg s1
                            [\<lparr> chat_id = jid, pinned = None, archived = None,
                               conversationTimestamp = Some (toNumber cfg (messageTimestamp msg)),
                               unreadCount = Some 1 \<rparr>]
                     else s1))
          s newMessages
      else s)"

text \<open>
  \<open>messages.update\<close>, one entry \<open>{update, key}\<close> of the loop: the status of the update is
  deleted when the stored status is truthy and not below it.
\<close>

definition messages_update_one :: "Store \<Rightarrow> WAMessageUpdate \<times> MessageKey \<Rightarrow> Store" where
  "messages_update_one s entry =
     (let (update, k) = entry;
          jid = jidNormalizedUser (remoteJid k);
          ms = assertMessageList (messages s) jid;
          list = (case map_of ms jid of None \<Rightarrow> makeOrderedDictionary | Some l \<Rightarrow> l);
          update' =
            (if truthy_int (upd_status update) then
               (let storedStatus =
                      (case od_get list (property_key (key_id k)) of None \<Rightarrow> None | Some m \<Rightarrow> status m)
                in if truthy_int storedStatus
                      \<and> (case (upd_status update, storedStatus) of
                            (Some new, Some stored) \<Rightarrow> new \<le> stored
                          | _ \<Rightarrow> False)
                   then update\<lparr> upd_status := None \<rparr> else update)
             else update);
          (list', result) =
            od_updateAssign waMessageID message_assign list (property_key (key_id k)) update';
          s1 = s\<lparr> messages := AList.update jid list' ms \<rparr>
      in if result then s1 else log_message ''got update for non-existant message'' s1)"

definition on_messages_update :: "Store \<Rightarrow> (WAMessageUpdate \<times> MessageKey) list \<Rightarrow> Store" where
  "on_messages_update s updates = foldl messages_update_one s updates"

text \<open>\<open>groups.update\<close>\<close>

definition on_groups_update :: "Store \<Rightarrow> GroupMetadata list \<Rightarrow> Store" where
  "on_groups_update s updates =
     foldl (\<lambda>s update.
              s\<lparr> groupMetadata :=
                   AList.update (group_id update)
                     (case map_of (groupMetadata s) (group_id update) of
                        None \<Rightarrow> update
                      | Some g \<Rightarrow> group_assign g update)
                     (groupMetadata s) \<rparr>)
       s updates"

text \<open>
  \<open>group-participants.update\<close>. On metadata without a participant list, \<open>push\<close> and \<open>filter\<close>
  throw a TypeError and nothing is changed.
\<close>

definition on_group_participants_update :: "Store \<Rightarrow> string \<Rightarrow> string list \<Rightarrow> string \<Rightarrow> Store" where
  "on_group_participants_update s i ps action =
     (case map_of (groupMetadata s) i of
        None \<Rightarrow> s
      | Some metadata \<Rightarrow>
          (case participants metadata of
             None \<Rightarrow> s
           | Some old \<Rightarrow>
               if action = ''add''
                 then s\<lparr> groupMetadata :=
                          AList.update i
                            (metadata\<lparr> participants :=
                               Some (old @ map (\<lambda>p. \<lparr> participant_id = p, admin = None \<rparr>) ps) \<rparr>)
                            (groupMetadata s) \<rparr>
               else if action = ''remove''
                 then s\<lparr> groupMetadata :=
                          AList.update i
                            (metadata\<lparr> participants :=
                               Some (filter (\<lambda>p. participant_id p \<notin> set ps) old) \<rparr>)
                            (groupMetadata s) \<rparr>
               else s))"

text \<open>\<open>labels.upsert\<close> and \<open>labels.update\<close>\<close>

definition on_labels_upsert :: "Store \<Rightarrow> Label list \<Rightarrow> Store" where
  "on_labels_upsert s newLabels = s\<lparr> labels := labelsUpsert (labels s) newLabels \<rparr>"

definition on_labels_update :: "Store \<Rightarrow> Label list \<Rightarrow> Store" where
  "on_labels_update s updates =
     foldl (\<lambda>s update.
              case repo_findById (labels s) (label_id update) of
                None \<Rightarrow> s
              | Some label \<Rightarrow>
                  s\<lparr> labels := (labels s)\<lparr> entityMap :=
                        AList.update (label_id update) (label_assign label update)
                          (entityMap (labels s)) \<rparr> \<rparr>)
       s updates"

subsection \<open>Events\<close>

datatype Event =
    ConnectionUpdate "string js_object"
  | MessagingHistorySet "Chat list" "Contact list" "WAMessage list" bool "HistorySyncType option"
  | ContactsUpsert "Contact list"
  | ContactsUpdate "Contact list"
  | ChatsUpsert "Chat list"
  | ChatsUpdate "Chat list"
  | LabelsEdit Label
  | LabelsAssociation string LabelAssociation
  | PresenceUpdate string "string js_object"
  | ChatsDelete "string list"
  | MessagesUpsert "WAMessage list" string
  | MessagesUpdate "(WAMessageUpdate \<times> MessageKey) list"
  | GroupsUpdate "GroupMetadata list"
  | GroupParticipantsUpdate string "string list" string
  | LabelsUpsert "Label list"
  | LabelsUpdate "Label list"

text \<open>The store after an event, and after a sequence of events.\<close>

fun handle :: "Config \<Rightarrow> Store \<Rightarrow> Event \<Rightarrow> Store" where
  "handle cfg s (ConnectionUpdate update) = on_connection_update s update"
| "handle cfg s (MessagingHistorySet newChats newContacts newMessages isLatest syncType) =
     on_messaging_history_set cfg s newChats newContacts newMessages isLatest syncType"
| "handle cfg s (ContactsUpsert newContacts) = on_contacts_upsert s newContacts"
| "handle cfg s (ContactsUpdate updates) = on_contacts_update cfg s updates"
| "handle cfg s (ChatsUpsert newChats) = on_chats_upsert cfg s newChats"
| "handle cfg s (ChatsUpdate updates) = on_chats_update cfg s updates"
| "handle cfg s (LabelsEdit label) = on_labels_edit s label"
| "handle cfg s (LabelsAssociation type association) =
     on_labels_association cfg s type association"
| "handle cfg s (PresenceUpdate i update) = on_presence_update s i update"
| "handle cfg s (ChatsDelete deletions) = on_chats_delete s deletions"
| "handle cfg s (MessagesUpsert newMessages type) = on_messages_upsert cfg s newMessages type"
| "handle cfg s (MessagesUpdate updates) = on_messages_update s updates"
| "handle cfg s (GroupsUpdate updates) = on_groups_update s updates"
| "handle cfg s (GroupParticipantsUpdate i ps action) = on_group_participants_update s i ps action"
| "handle cfg s (LabelsUpsert newLabels) = on_labels_upsert s newLabels"
| "handle cfg s (LabelsUpdate updates) = on_labels_update s updates"

definition run :: "Config \<Rightarrow> Store \<Rightarrow> Event list \<Rightarrow> Store" where
  "run cfg s events = foldl (handle cfg) s events"

subsection \<open>Reading and persistence\<close>

text \<open>\<open>loadMessage(jid, id)\<close>\<close>

definition loadMessage :: "Store \<Rightarrow> string \<Rightarrow> string \<Rightarrow> WAMessage option" where
  "loadMessage s jid i =
     (case map_of (messages s) (jidNormalizedUser (Some jid)) of
        None \<Rightarrow> None
      | Some list \<Rightarrow> od_get list i)"

text \<open>The value of \<open>toJSON()\<close>; a key that a snapshot does not have is \<open>None\<close>.\<close>

record Snapshot =
  json_chats :: "Chat list option"
  json_contacts :: "Contact js_object option"
  json_messages :: "WAMessage list js_object option"
  json_groupMetadata :: "GroupMetadata js_object option"
  json_presences :: "string js_object js_object option"
  json_state :: "string js_object option"
  json_labels :: "Label list option"
  json_labelAssociations :: "LabelAssociation list option"

definition toJSON :: "Store \<Rightarrow> Snapshot" where
  "toJSON s =
     \<lparr> json_chats = Some (kdb_toJSON (chats s)),
       json_contacts = Some (contacts s),
       json_messages = Some (map (\<lambda>(k, v). (k, od_toJSON v)) (messages s)),
       json_groupMetadata = Some (groupMetadata s),
       json_presences = Some (presences s),
       json_state = Some (state s),
       json_labels = Some (repo_toJSON (labels s)),
       json_labelAssociations = Some (kdb_toJSON (labelAssociations s)) \<rparr>"

text \<open>\<open>fromJSON(json)\<close>; \<open>None\<close> as argument is a falsy \<open>json\<close>.\<close>

definition fromJSON :: "Config \<Rightarrow> Store \<Rightarrow> Snapshot option \<Rightarrow> Store" where
  "fromJSON cfg s json =
     (case json of
        None \<Rightarrow> s
      | Some j \<Rightarrow>
         (let s1 = (case json_chats j of None \<Rightarrow> s
                    | Some cs \<Rightarrow> s\<lparr> chats := kdb_fromJSON (waChatKey cfg True) chat_id cs \<rparr>);
              s2 = (case json_contacts j of None \<Rightarrow> s1
                    | Some cs \<Rightarrow> s1\<lparr> contacts := object_assign (contacts s1) cs \<rparr>);
              s3 = (case json_messages j of None \<Rightarrow> s2
                    | Some ms \<Rightarrow>
                        s2\<lparr> messages :=
                              foldl (\<lambda>acc jid.
                                       on_message_list acc jid
                                         (\<lambda>l. od_fromJSON waMessageID l
                                                 (case map_of ms jid of None \<Rightarrow> [] | Some items \<Rightarrow> items)))
                                (messages s2) (map fst ms) \<rparr>);
              s4 = (case json_groupMetadata j of None \<Rightarrow> s3
                    | Some g \<Rightarrow> s3\<lparr> groupMetadata := object_assign (groupMetadata s3) g \<rparr>);
              s5 = (case json_presences j of None \<Rightarrow> s4
                    | Some p \<Rightarrow> s4\<lparr> presences := object_assign (presences s4) p \<rparr>);
              s6 = (case json_state j of None \<Rightarrow> s5
                    | Some st \<Rightarrow> s5\<lparr> state := object_assign (state s5) st \<rparr>);
              s7 = (case json_labels j of None \<Rightarrow> s6
                    | Some ls \<Rightarrow> s6\<lparr> labels := labelsUpsert (labels s6) ls \<rparr>)
          in (case json_labelAssociations j of None \<Rightarrow> s7
              | Some las \<Rightarrow>
                  s7\<lparr> labelAssociations :=
                        kdb_fromJSON (waLabelAssociationKey cfg)
                          (key (waLabelAssociationKey cfg)) las \<rparr>)))"

section \<open>Sample values\<close>

text \<open>
  Short forms of the entities, for the concrete instances below, and a configuration:
  no socket, the identity in the place of the hash, a \<open>toNumber\<close> that gives 0 for an
  absent timestamp, and as \<open>localeCompare\<close> the comparison of the strings by character
  codes. The collation of a run-time is another comparison (it ranks the punctuation
  before the digits and these before the letters, say); wherever an instance below compares
  two keys, they differ first at two digits or lower-case letters \<open>a\<close> to \<open>f\<close>, which the
  collations order as their character codes do.
\<close>

definition code_unit_compare :: "string \<Rightarrow> string \<Rightarrow> int" where
  "code_unit_compare a b = (if a < b then - 1 else if a = b then 0 else 1)"

definition sample_message :: "string \<Rightarrow> string \<Rightarrow> int option \<Rightarrow> string \<Rightarrow> WAMessage" where
  "sample_message jid i st body =
     \<lparr> msg_key = \<lparr> remoteJid = Some jid, key_id = Some i, fromMe = None \<rparr>,
       status = st, messageTimestamp = None, message = Some body \<rparr>"

definition sample_chat :: "string \<Rightarrow> int option \<Rightarrow> int option \<Rightarrow> Chat" where
  "sample_chat i ts unread =
     \<lparr> chat_id = i, pinned = None, archived = None, conversationTimestamp = ts,
       unreadCount = unread \<rparr>"

definition sample_label :: "string \<Rightarrow> Label" where
  "sample_label i =
     \<lparr> label_id = i, label_name = None, color = None, deleted = None, predefinedId = None \<rparr>"


definition sample_config :: Config where
  "sample_config =
     \<lparr> localeCompare = code_unit_compare, profilePictureUrl = None, md5_base64 = (\<lambda>s. s),
       toNumber = (\<lambda>t. case t of None \<Rightarrow> 0 | Some n \<Rightarrow> n) \<rparr>"


definition patch_key :: "MessageKey \<Rightarrow> WAMessageUpdate" where
  "patch_key k =
     \<lparr> upd_key = Some k, upd_status = None, upd_messageTimestamp = None, upd_message = None \<rparr>"

text \<open>\<open>n\<close> labels with the distinct identities \<open>''''\<close>, \<open>''a''\<close>, \<open>''aa''\<close>, ...\<close>

definition sample_labels :: "nat \<Rightarrow> Label list" where
  "sample_labels n = map (\<lambda>k. sample_label (replicate k CHR ''a'')) [0..<n]"

section \<open>The order the spec states for chats\<close>







text \<open>Auxiliary: the digits of a number in radix 16 at a fixed width.\<close>

fun hexw :: "nat \<Rightarrow> nat \<Rightarrow> string" where
  "hexw 0 n = []"
| "hexw (Suc w) n = hexw w (n div 16) @ [digit_chars ! (n mod 16)]"


section \<open>Properties of the ordered dictionary\<close>

lemma findIndex_Some_less: "findIndex p xs = Some i \<Longrightarrow> i < length xs \<and> p (xs ! i)"
  by (induction xs arbitrary: i) (auto split: if_splits option.splits)

lemma od_update_returns_False: "snd (od_update idGetter d item) = False"
  by (simp add: od_update_def Let_def split: option.splits)


lemma od_update_absent:
  "findIndex (\<lambda>r. map_option idGetter (od_deref d r) = Some (idGetter item)) (array d) = None
   \<Longrightarrow> od_update idGetter d item = (d, False)"
  by (simp add: od_update_def Let_def)

text \<open>
  C7. \<open>update\<close> replaces in place the item with the same identity and inserts nothing when
  there is none, but its return value is \<open>false\<close> also when the item was found: on a
  dictionary that holds a message with identity \<open>A\<close>, \<open>update\<close> of a new message with that
  identity replaces the old one and returns \<open>false\<close>; on the empty dictionary it changes
  nothing and returns \<open>false\<close>.
\<close>

theorem od_update_found_returns_false:
  "od_get (od_upsert waMessageID makeOrderedDictionary
             (sample_message ''c@g.us'' ''A'' None ''old'') Append) ''A''
     = Some (sample_message ''c@g.us'' ''A'' None ''old'')
   \<and> snd (od_update waMessageID
          (od_upsert waMessageID makeOrderedDictionary
             (sample_message ''c@g.us'' ''A'' None ''old'') Append)
          (sample_message ''c@g.us'' ''A'' None ''new'')) = False
   \<and> od_toJSON (fst (od_update waMessageID
          (od_upsert waMessageID makeOrderedDictionary
             (sample_message ''c@g.us'' ''A'' None ''old'') Append)
          (sample_message ''c@g.us'' ''A'' None ''new'')))
     = [sample_message ''c@g.us'' ''A'' None ''new'']
   \<and> od_update waMessageID makeOrderedDictionary (sample_message ''c@g.us'' ''A'' None ''new'')
     = (makeOrderedDictionary, False)"
  by code_simp

section \<open>Properties of the bounded object repository\<close>

lemma delete_hd: "distinct (map fst m) \<Longrightarrow> m \<noteq> [] \<Longrightarrow> AList.delete (fst (hd m)) m = tl m"
  by (cases m) (force simp: AList.delete_eq intro!: filter_True)+

lemma cleanup_loop_drop:
  "distinct (map fst m0) \<Longrightarrow> ks = map fst m0 \<Longrightarrow> i \<le> length m0 \<Longrightarrow> m = drop i m0 \<Longrightarrow>
   cleanup_loop ks i m = drop (max i ((length m0 + 1) div 2)) m0"
proof (induction ks i m rule: cleanup_loop.induct)
  case (1 ks i m)
  show ?case
  proof (cases "2 * i < length ks")
    case True
    then have i: "i < length m0" using 1 by simp
    have d: "distinct (map fst (drop i m0))" using 1(2) by (simp add: distinct_drop flip: drop_map)
    have ne: "drop i m0 \<noteq> []" using i by simp
    have "ks ! i = fst (hd (drop i m0))" using i 1(3) by (simp add: hd_drop_conv_nth)
    then have "AList.delete (ks ! i) m = drop (Suc i) m0"
      using delete_hd[OF d ne] 1(5) by (simp add: drop_Suc tl_drop)
    then have "cleanup_loop ks (Suc i) (AList.delete (ks ! i) m)
        = drop (max (Suc i) ((length m0 + 1) div 2)) m0"
      using 1(1)[OF True 1(2) 1(3)] i by simp
    moreover have "max (Suc i) ((length m0 + 1) div 2) = max i ((length m0 + 1) div 2)"
      using True 1(3) by auto
    ultimately show ?thesis using True by (subst cleanup_loop.simps) simp
  next
    case False
    then have "max i ((length m0 + 1) div 2) = i" using 1(3) by auto
    then show ?thesis using False 1(5) by (subst cleanup_loop.simps) simp
  qed
qed

lemma repo_cleanup_big:
  "distinct (map fst (entityMap r)) \<Longrightarrow> length (entityMap r) > maxSize r \<Longrightarrow>
   entityMap (repo_cleanup r) = drop ((length (entityMap r) + 1) div 2) (entityMap r)"
  using cleanup_loop_drop[of "entityMap r" "map fst (entityMap r)" 0 "entityMap r"]
  by (simp add: repo_cleanup_def)

lemma update_fresh: "k \<notin> fst ` set m \<Longrightarrow> AList.update k v m = m @ [(k, v)]"
  by (induction m) auto

lemma repo_upsert_all_fresh:
  "distinct (map fst recs) \<Longrightarrow> fst ` set recs \<inter> fst ` set (entityMap r) = {} \<Longrightarrow>
   length (entityMap r) + length recs \<le> maxSize r \<Longrightarrow>
   repo_upsert_all r recs = r\<lparr> entityMap := entityMap r @ recs \<rparr>"
proof (induction recs arbitrary: r)
  case Nil
  then show ?case by (simp add: repo_upsert_all_def)
next
  case (Cons p recs)
  obtain k v where p: "p = (k, v)" by (cases p)
  let ?r = "r\<lparr> entityMap := entityMap r @ [(k, v)] \<rparr>"
  have fresh: "k \<notin> fst ` set (entityMap r)" using Cons.prems(2) p by auto
  have step: "repo_upsertById r k v = ?r"
    using Cons.prems(3) fresh by (simp add: repo_upsertById_def update_fresh repo_cleanup_def)
  have "repo_upsert_all ?r recs = ?r\<lparr> entityMap := entityMap ?r @ recs \<rparr>"
    using Cons.prems p by (intro Cons.IH) auto
  then show ?case using step p by (simp add: repo_upsert_all_def)
qed

lemma last_in_drop_501: "length recs = 1001 \<Longrightarrow> last recs \<in> set (drop 501 recs)"
proof -
  assume a: "length recs = 1001"
  then have "drop 501 recs \<noteq> []" by simp
  then have "last (drop 501 recs) \<in> set (drop 501 recs)" by (rule last_in_set)
  moreover have "last (drop 501 recs) = last recs" using a by (simp add: last_drop)
  ultimately show ?thesis by simp
qed

text \<open>
  C8. From an empty repository (capacity 1000), upserting 1001 records under distinct
  identities leaves exactly the 500 records inserted last, in insertion order: the count is
  at most capacity - capacity div 2 + 1, and the record inserted last is still found.
\<close>

theorem repo_overflow_keeps_newest:
  assumes "distinct (map fst recs)" and "length recs = 1001"
  shows "entityMap (repo_upsert_all (new_ObjectRepository []) recs) = drop 501 recs
    \<and> repo_count (repo_upsert_all (new_ObjectRepository []) recs)
        \<le> maxSize (new_ObjectRepository []) - maxSize (new_ObjectRepository []) div 2 + 1
    \<and> repo_findById (repo_upsert_all (new_ObjectRepository []) recs) (fst (last recs))
        = Some (snd (last recs))"
proof -
  let ?r0 = "new_ObjectRepository [] :: 'a object_repository"
  have ne: "recs \<noteq> []" using assms(2) by auto
  define front where "front = butlast recs"
  obtain k v where l: "last recs = (k, v)" by (cases "last recs")
  have recs: "recs = front @ [(k, v)]" using ne l by (simp add: front_def flip: l)
  let ?r1 = "?r0\<lparr> entityMap := front \<rparr>"
  have "repo_upsert_all ?r0 front = ?r0\<lparr> entityMap := entityMap ?r0 @ front \<rparr>"
    using assms recs by (intro repo_upsert_all_fresh) (auto simp: new_ObjectRepository_def)
  then have front: "repo_upsert_all ?r0 front = ?r1" by (simp add: new_ObjectRepository_def)
  have fresh: "k \<notin> fst ` set front" using assms(1) recs by auto
  let ?r2 = "?r1\<lparr> entityMap := recs \<rparr>"
  have up: "AList.update k v front = recs" using fresh recs by (simp add: update_fresh)
  have big: "entityMap (repo_cleanup ?r2) = drop ((length (entityMap ?r2) + 1) div 2) (entityMap ?r2)"
    using assms by (intro repo_cleanup_big) (simp_all add: new_ObjectRepository_def)
  have "repo_upsert_all ?r0 recs = repo_upsertById ?r1 k v"
    using front by (simp add: repo_upsert_all_def recs)
  then have res: "entityMap (repo_upsert_all ?r0 recs) = drop 501 recs"
    using big up assms(2) by (simp add: repo_upsertById_def)
  have lastin: "(k, v) \<in> set (drop 501 recs)"
    using last_in_drop_501[OF assms(2)] l by simp
  have "distinct (map fst (drop 501 recs))"
    using assms(1) by (simp add: distinct_drop flip: drop_map)
  then have "map_of (drop 501 recs) k = Some v" using lastin by simp
  then show ?thesis using res assms(2) l
    by (simp add: repo_count_def repo_findById_def new_ObjectRepository_def)
qed

lemma sample_records_length: "length sample_records = 1001"
  by (simp add: sample_records_def)

lemma sample_records_distinct: "distinct (map fst sample_records)"
  unfolding sample_records_def map_map comp_def fst_conv
  by (rule iffD2[OF distinct_map]) (simp add: inj_on_def del: upt_rec_numeral)

lemma sample_records_last: "last sample_records = (replicate 1000 CHR ''a'', 1000)"
  unfolding sample_records_def by (simp add: last_map del: upt_rec_numeral)

theorem repo_overflow_keeps_newest_witness:
  "repo_count (repo_upsert_all (new_ObjectRepository []) sample_records) \<le> 501
   \<and> repo_findById (repo_upsert_all (new_ObjectRepository []) sample_records)
       (replicate 1000 CHR ''a'') = Some 1000"
  using repo_overflow_keeps_newest[OF sample_records_distinct sample_records_length]
  by (simp add: sample_records_last new_ObjectRepository_def)

section \<open>Properties of the identifier functions\<close>


lemma digit_value_10_iff: "digit_value 10 c \<noteq> None \<longleftrightarrow> is_dec_digit c"
  by (simp add: digit_value_def digit_chars_def is_dec_digit_def)

lemma digit_value_10_ex: "(\<exists>y. digit_value 10 c = Some y) \<longleftrightarrow> is_dec_digit c"
  using digit_value_10_iff[of c] by auto

lemma digit_char_10: "d < 10 \<Longrightarrow> is_dec_digit (digit_chars ! d) \<and> digit_value 10 (digit_chars ! d) = Some d"
proof -
  have "list_all (\<lambda>d. is_dec_digit (digit_chars ! d) \<and> digit_value 10 (digit_chars ! d) = Some d) [0..<10]"
    by code_simp
  moreover assume "d < 10"
  ultimately show ?thesis by (simp add: list_all_iff del: upt_rec_numeral)
qed

lemma nat_toString_10_digits: "\<forall>c \<in> set (nat_toString 10 n). is_dec_digit c"
proof (induction "10::nat" n rule: nat_toString.induct)
  case (1 n)
  show ?case
  proof (cases "n < 10")
    case True
    then show ?thesis by (subst nat_toString.simps) (simp add: digit_char_10)
  next
    case False
    then have "\<forall>c \<in> set (nat_toString 10 (n div 10)). is_dec_digit c" using 1 by simp
    then show ?thesis using False by (subst nat_toString.simps) (simp add: digit_char_10)
  qed
qed

lemma nat_toString_nonempty: "nat_toString radix n \<noteq> []"
  by (subst nat_toString.simps) simp

lemma digits_value_snoc:
  "digits_value radix (ds @ [c]) =
     digits_value radix ds * radix + (case digit_value radix c of Some d \<Rightarrow> d | None \<Rightarrow> 0)"
  by (simp add: digits_value_def)

lemma digits_value_nat_toString: "digits_value 10 (nat_toString 10 n) = n"
proof (induction "10::nat" n rule: nat_toString.induct)
  case (1 n)
  show ?case
  proof (cases "n < 10")
    case True
    then show ?thesis
      by (subst nat_toString.simps) (simp add: digits_value_def digit_char_10)
  next
    case False
    then have "digits_value 10 (nat_toString 10 (n div 10)) = n div 10" using 1 by simp
    then show ?thesis using False
      by (subst nat_toString.simps) (simp add: digits_value_snoc digit_char_10)
  qed
qed

lemma js_to_number_digits:
  "s \<noteq> [] \<Longrightarrow> \<forall>c \<in> set s. is_dec_digit c \<Longrightarrow> js_to_number s = Num (int (digits_value 10 s))"
  by (simp add: js_to_number_def digit_value_10_ex)

lemma js_parseInt_digits:
  assumes "s \<noteq> []" and "\<forall>c \<in> set s. is_dec_digit c"
  shows "js_parseInt s = Num (int (digits_value 10 s))"
proof -
  obtain c cs where s: "s = c # cs" using assms(1) by (cases s) auto
  have c: "is_dec_digit c" using assms(2) s by simp
  then have nws: "\<not> is_white_space c" by (auto simp: is_dec_digit_def is_white_space_def)
  have t: "dropWhile is_white_space s = s" using nws s by simp
  have sign: "take 1 s \<noteq> ''-''" "take 1 s \<noteq> ''+''" using c s by (auto simp: is_dec_digit_def)
  have hex: "take 2 s \<noteq> ''0x''" "take 2 s \<noteq> ''0X''"
    using assms(2) s by (cases cs; auto simp: is_dec_digit_def)+
  have tw: "takeWhile (\<lambda>c. \<exists>y. digit_value 10 c = Some y) s = s"
    using assms(2) by (simp add: digit_value_10_ex)
  show ?thesis
    unfolding js_parseInt_def Let_def t using sign hex assms(1) by (simp add: tw)
qed

lemma findIndex_append_first:
  "\<forall>x \<in> set xs. \<not> p x \<Longrightarrow> p y \<Longrightarrow> findIndex p (xs @ y # ys) = Some (length xs)"
  by (induction xs) auto

lemma split_char_none: "sep \<notin> set a \<Longrightarrow> split_char sep a = [a]"
proof -
  assume "sep \<notin> set a"
  then have "dropWhile (\<lambda>c. c \<noteq> sep) a = []" by auto
  then show ?thesis by (subst split_char.simps) (simp only: list.case)
qed

lemma split_char_first:
  "sep \<notin> set a \<Longrightarrow> split_char sep (a @ sep # b) = a # split_char sep b"
proof -
  assume a: "sep \<notin> set a"
  then have "dropWhile (\<lambda>c. c \<noteq> sep) (a @ sep # b) = sep # b"
    by (auto simp: dropWhile_append)
  moreover have "takeWhile (\<lambda>c. c \<noteq> sep) (a @ sep # b) = a"
    using a by (auto simp: takeWhile_append)
  ultimately show ?thesis by (subst split_char.simps) (simp only: list.case)
qed


lemma not_sep_digit: "is_dec_digit c \<Longrightarrow> c \<noteq> CHR ''@'' \<and> c \<noteq> CHR '':'' \<and> c \<noteq> CHR ''_''"
  by (auto simp: is_dec_digit_def)

lemma nat_toString_10_no_sep:
  "CHR ''@'' \<notin> set (nat_toString 10 n)" "CHR '':'' \<notin> set (nat_toString 10 n)"
  "CHR ''_'' \<notin> set (nat_toString 10 n)"
  using nat_toString_10_digits[of n] not_sep_digit by blast+

lemma js_parseInt_nat_toString: "js_parseInt (nat_toString 10 n) = Num (int n)"
  by (simp add: js_parseInt_digits nat_toString_nonempty nat_toString_10_digits
      digits_value_nat_toString)

lemma js_to_number_nat_toString: "js_to_number (nat_toString 10 n) = Num (int n)"
  by (simp add: js_to_number_digits nat_toString_nonempty nat_toString_10_digits
      digits_value_nat_toString)

lemma split_user_agent:
  assumes "CHR ''_'' \<notin> set u"
  shows "split_char CHR ''_'' (u @ agent_part agent) =
     (case agent of None \<Rightarrow> [u] | Some a \<Rightarrow> if a \<noteq> 0 then [u, nat_toString 10 a] else [u])"
  using assms
  by (auto simp: agent_part_def split_char_none split_char_first nat_toString_10_no_sep
      split: option.splits)

lemma split_user_combined:
  assumes "CHR '':'' \<notin> set u"
  shows "split_char CHR '':'' (u @ agent_part agent @ device_part dev) =
     (case dev of None \<Rightarrow> [u @ agent_part agent]
      | Some d \<Rightarrow> if d \<noteq> 0 then [u @ agent_part agent, nat_toString 10 d] else [u @ agent_part agent])"
proof -
  have ua: "CHR '':'' \<notin> set (u @ agent_part agent)"
    using assms by (auto simp: agent_part_def nat_toString_10_no_sep split: option.splits)
  show ?thesis
  proof (cases "\<exists>d. dev = Some d \<and> d \<noteq> 0")
    case True
    then obtain d where d: "dev = Some d" "d \<noteq> 0" by auto
    have "split_char CHR '':'' ((u @ agent_part agent) @ CHR '':'' # nat_toString 10 d)
        = (u @ agent_part agent) # split_char CHR '':'' (nat_toString 10 d)"
      using ua by (rule split_char_first)
    then show ?thesis using d by (simp add: device_part_def split_char_none nat_toString_10_no_sep)
  next
    case False
    then have "device_part dev = []" by (auto simp: device_part_def split: option.splits)
    then show ?thesis using False split_char_none[OF ua] by (auto split: option.splits)
  qed
qed

lemma decode_encoded:
  assumes "CHR ''@'' \<notin> set u" and "CHR '':'' \<notin> set u" and "CHR ''_'' \<notin> set u"
  shows "jidDecode (Some ((u @ agent_part agent @ device_part dev) @ CHR ''@'' # srv)) =
     Some \<lparr> user = u, server = srv,
            domainType =
              (if srv = ''lid'' then Num 1
               else if srv = ''hosted'' then Num 128
               else if srv = ''hosted.lid'' then Num 129
               else (case agent of None \<Rightarrow> Num 0 | Some a \<Rightarrow> Num (int a))),
            device = (case dev of None \<Rightarrow> None
                      | Some d \<Rightarrow> if d = 0 then None else Some (Num (int d))) \<rparr>"
proof -
  let ?uc = "u @ agent_part agent @ device_part dev"
  have noat: "\<forall>x \<in> set ?uc. \<not> (x = CHR ''@'')"
    using assms(1)
    by (auto simp: agent_part_def device_part_def nat_toString_10_no_sep split: option.splits if_splits)
  have idx: "findIndex (\<lambda>c. c = CHR ''@'') (?uc @ CHR ''@'' # srv) = Some (length ?uc)"
    by (rule findIndex_append_first[OF noat]) simp
  have tk: "take (length ?uc) (?uc @ CHR ''@'' # srv) = ?uc" by simp
  have dr: "drop (length ?uc + 1) (?uc @ CHR ''@'' # srv) = srv" by simp
  show ?thesis
    unfolding jidDecode_def option.case idx Let_def tk dr
      split_user_combined[OF assms(2)]
    by (auto simp: split_user_agent[OF assms(3)] js_parseInt_nat_toString
        js_to_number_nat_toString nat_toString_nonempty split: option.splits)
qed

lemma jidEncode_parts:
  "jidEncode usr srv dev agent
     = ((case usr of None \<Rightarrow> [] | Some u \<Rightarrow> u)
        @ agent_part (map_option number_value agent) @ device_part (map_option number_value dev))
       @ CHR ''@'' # srv"
  by (simp add: jidEncode_def agent_part_def device_part_def split: option.splits)

text \<open>
  C9 (amended). For a user without \<open>@\<close>, \<open>:\<close> and \<open>_\<close> (a \<open>null\<close> user counting as the empty
  string), any server, and device and agent safe integers (natural numbers below \<open>2^53\<close>)
  or absent, \<open>jidDecode (jidEncode user server device agent)\<close> returns the user, the server,
  the device when it is not zero (an absent or zero device comes back absent), and the
  domain type: 1, 128, 129 for the servers \<open>lid\<close>, \<open>hosted\<close>, \<open>hosted.lid\<close>, otherwise the
  agent, or 0 when the agent is absent.
\<close>

theorem jid_roundtrip:
  assumes "CHR ''@'' \<notin> set u" and "CHR '':'' \<notin> set u" and "CHR ''_'' \<notin> set u"
    and "usr = None \<and> u = [] \<or> usr = Some u"
  shows "jidDecode (Some (jidEncode usr srv dev agent)) =
     Some \<lparr> user = u, server = srv,
            domainType =
              (if srv = ''lid'' then Num 1
               else if srv = ''hosted'' then Num 128
               else if srv = ''hosted.lid'' then Num 129
               else (case agent of None \<Rightarrow> Num 0 | Some a \<Rightarrow> Num (int (number_value a)))),
            device = (case dev of None \<Rightarrow> None
                      | Some d \<Rightarrow> if number_value d = 0 then None
                                  else Some (Num (int (number_value d)))) \<rparr>"
proof -
  have u: "(case usr of None \<Rightarrow> [] | Some u \<Rightarrow> u) = u"
    using assms(4) by auto
  show ?thesis
    unfolding jidEncode_parts u decode_encoded[OF assms(1,2,3)]
    by (simp split: option.splits)
qed

text \<open>The round trip at user \<open>5511999\<close>, device 12, agent 3.\<close>

theorem jid_roundtrip_witness:
  "jidDecode (Some (jidEncode (Some ''5511999'') ''s.whatsapp.net''
       (Some (SafeInteger 12)) (Some (SafeInteger 3)))) =
     Some \<lparr> user = ''5511999'', server = ''s.whatsapp.net'', domainType = Num 3,
            device = Some (Num 12) \<rparr>"
  using jid_roundtrip[of "''5511999''" "Some ''5511999''" "''s.whatsapp.net''"
      "Some (SafeInteger 12)" "Some (SafeInteger 3)"]
  by (simp add: SafeInteger_inverse)

text \<open>
  C9 as stated fails: device 0 comes back absent, and a user holding \<open>_\<close>, \<open>@\<close> or \<open>:\<close> is
  cut at that character.
\<close>

theorem jid_roundtrip_counterexample:
  "jidDecode (Some (jidEncode (Some ''5511999'') ''s.whatsapp.net'' (Some (SafeInteger 0)) None))
     = Some \<lparr> user = ''5511999'', server = ''s.whatsapp.net'', domainType = Num 0, device = None \<rparr>
   \<and> jidDecode (Some (jidEncode (Some ''office_1'') ''s.whatsapp.net'' None None))
     = Some \<lparr> user = ''office'', server = ''s.whatsapp.net'', domainType = Num 1, device = None \<rparr>
   \<and> jidDecode (Some (jidEncode (Some ''me@home'') ''c.us'' None None))
     = Some \<lparr> user = ''me'', server = ''home@c.us'', domainType = Num 0, device = None \<rparr>
   \<and> jidDecode (Some (jidEncode (Some ''a:b'') ''c.us'' None None))
     = Some \<lparr> user = ''a'', server = ''c.us'', domainType = Num 0, device = Some NaN \<rparr>"
proof -
  have e: "jidEncode (Some ''5511999'') ''s.whatsapp.net'' (Some (SafeInteger 0)) None
      = ''5511999@s.whatsapp.net''"
    by (simp add: jidEncode_def SafeInteger_inverse)
  show ?thesis unfolding e by code_simp
qed
section \<open>Properties of the sorted keyed collection\<close>




section \<open>Unread counts (chats.update)\<close>



section \<open>The status guard (messages.update)\<close>






section \<open>Full history sync (messaging-history.set)\<close>

lemma od_upsert_objs: "set (objs (od_upsert idg l m mode)) \<subseteq> insert m (set (objs l))"
  by (auto simp: od_upsert_def od_update_def Let_def split: option.splits)

lemma od_get_in_objs: "od_get l i = Some m \<Longrightarrow> m \<in> set (objs l)"
  by (auto simp: od_get_def od_deref_def split: option.splits if_splits)

lemma map_filter_deref_in_objs: "set (List.map_filter (od_deref l) rs) \<subseteq> set (objs l)"
  by (induction rs) (auto simp: od_deref_def)

lemma od_toJSON_in_objs: "set (od_toJSON l) \<subseteq> set (objs l)"
  by (simp add: od_toJSON_def map_filter_deref_in_objs)

lemma set_AList_update: "set (AList.update k v al) \<subseteq> insert (k, v) (set al)"
  by (induction al) auto

lemma on_message_list_inv:
  assumes "\<forall>l \<in> snd ` set ms. P l" and "P makeOrderedDictionary" and "\<And>l. P l \<Longrightarrow> P (f l)"
  shows "\<forall>l \<in> snd ` set (on_message_list ms jid f). P l"
proof -
  let ?ms = "assertMessageList ms jid"
  have a: "\<forall>l \<in> snd ` set ?ms. P l"
    using assms(1,2) set_AList_update[of jid makeOrderedDictionary ms]
    by (auto simp: assertMessageList_def split: option.splits)
  show ?thesis
  proof (cases "map_of ?ms jid")
    case None
    then show ?thesis using a by (simp add: on_message_list_def)
  next
    case (Some l)
    then have "(jid, l) \<in> set ?ms" by (rule map_of_SomeD)
    then have "l \<in> snd ` set ?ms" by force
    then have "P l" using a by blast
    then have "P (f l)" by (rule assms(3))
    then show ?thesis using a Some set_AList_update[of jid "f l" ?ms]
      by (auto simp: on_message_list_def)
  qed
qed

lemma prepend_all_inv:
  assumes "\<forall>l \<in> snd ` set ms. set (objs l) \<subseteq> S" and "set new \<subseteq> S"
  shows "\<forall>l \<in> snd ` set
      (foldl (\<lambda>ms msg. on_message_list ms (property_key (remoteJid (msg_key msg)))
                          (\<lambda>l. od_upsert waMessageID l msg Prepend)) ms new).
           set (objs l) \<subseteq> S"
  using assms
proof (induction new arbitrary: ms)
  case Nil
  then show ?case by simp
next
  case (Cons msg new)
  have step: "\<forall>l \<in> snd ` set (on_message_list ms (property_key (remoteJid (msg_key msg)))
                          (\<lambda>l. od_upsert waMessageID l msg Prepend)). set (objs l) \<subseteq> S"
  proof (rule on_message_list_inv)
    show "\<forall>l \<in> snd ` set ms. set (objs l) \<subseteq> S" by (rule Cons.prems(1))
    show "set (objs (makeOrderedDictionary :: WAMessage ordered_dictionary)) \<subseteq> S"
      by (simp add: makeOrderedDictionary_def)
    show "set (objs (od_upsert waMessageID l msg Prepend)) \<subseteq> S" if "set (objs l) \<subseteq> S" for l
      using that Cons.prems(2) od_upsert_objs[of waMessageID l msg Prepend] by auto
  qed
  have rest: "set new \<subseteq> S" using Cons.prems(2) by simp
  show ?case unfolding foldl_Cons by (rule Cons.IH[OF step rest])
qed

text \<open>
  C3 (amended). A \<open>messaging-history.set\<close> event with \<open>isLatest = true\<close> whose sync type is not
  \<open>ON_DEMAND\<close> clears the chat collection and the message lists before it inserts: the chats
  and the message lists it leaves are those it leaves on a new store. With a payload whose
  only chat is \<open>A\<close> the chat collection holds exactly \<open>A\<close>, and every message that a list
  holds, in its array or in its lookup, is a message of the payload.
\<close>

theorem latest_history_sync_replaces:
  assumes "syncType \<noteq> Some ON_DEMAND"
  shows "chats (handle cfg s (MessagingHistorySet newChats newContacts newMessages True syncType))
       = chats (handle cfg makeInMemoryStore
                  (MessagingHistorySet newChats newContacts newMessages True syncType))
     \<and> messages (handle cfg s (MessagingHistorySet newChats newContacts newMessages True syncType))
       = messages (handle cfg makeInMemoryStore
                     (MessagingHistorySet newChats newContacts newMessages True syncType))
     \<and> kdb_all (chats (handle cfg s (MessagingHistorySet [A] newContacts newMessages True syncType)))
       = [A]
     \<and> (\<forall>jid l. map_of (messages (handle cfg s
                   (MessagingHistorySet newChats newContacts newMessages True syncType))) jid = Some l
          \<longrightarrow> set (od_toJSON l) \<subseteq> set newMessages
              \<and> (\<forall>i m. od_get l i = Some m \<longrightarrow> m \<in> set newMessages))"
proof -
  let ?ms = "foldl (\<lambda>ms msg. on_message_list ms (property_key (remoteJid (msg_key msg)))
                          (\<lambda>l. od_upsert waMessageID l msg Prepend)) [] newMessages"
  have c: "chats (on_messaging_history_set cfg s0 cs newContacts newMessages True syncType)
      = fst (kdb_insertIfAbsent (waChatKey cfg True) chat_id kdb_clear cs)" for s0 cs
    using assms by (simp add: on_messaging_history_set_def Let_def split_beta log_message_def)
  have m: "messages (on_messaging_history_set cfg s0 cs newContacts newMessages True syncType) = ?ms"
    for s0 cs
    using assms by (simp add: on_messaging_history_set_def Let_def split_beta log_message_def)
  have one: "fst (kdb_insertIfAbsent (waChatKey cfg True) chat_id kdb_clear [A]) = [A]"
    by (simp add: kdb_insertIfAbsent_def kdb_clear_def kdb_get_def)
  have inv: "\<forall>l \<in> snd ` set ?ms. set (objs l) \<subseteq> set newMessages"
    by (rule prepend_all_inv) simp_all
  have lists: "set (od_toJSON l) \<subseteq> set newMessages \<and> (\<forall>i m. od_get l i = Some m \<longrightarrow> m \<in> set newMessages)"
    if "map_of ?ms jid = Some l" for jid l
  proof -
    have "(jid, l) \<in> set ?ms" using that by (rule map_of_SomeD)
    then have "l \<in> snd ` set ?ms" by force
    then have "set (objs l) \<subseteq> set newMessages" using inv by blast
    then show ?thesis using od_toJSON_in_objs[of l] od_get_in_objs[of l] by blast
  qed
  show ?thesis unfolding handle.simps c m one kdb_all_def using lists by blast
qed

text \<open>
  On a store with the chat \<open>B\<close> and a message of it, a latest sync of type \<open>RECENT\<close> with the
  chat \<open>A\<close> only leaves exactly \<open>A\<close> and no message.
\<close>

theorem latest_history_sync_replaces_witness:
  "kdb_all (chats (handle sample_config
      (run sample_config makeInMemoryStore
         [MessagesUpsert [sample_message ''5511888@s.whatsapp.net'' ''M'' None ''old''] ''notify''])
      (MessagingHistorySet [sample_chat ''5511999@s.whatsapp.net'' (Some 1700000000) None] [] []
         True (Some RECENT))))
     = [sample_chat ''5511999@s.whatsapp.net'' (Some 1700000000) None]
   \<and> messages (handle sample_config
      (run sample_config makeInMemoryStore
         [MessagesUpsert [sample_message ''5511888@s.whatsapp.net'' ''M'' None ''old''] ''notify''])
      (MessagingHistorySet [sample_chat ''5511999@s.whatsapp.net'' (Some 1700000000) None] [] []
         True (Some RECENT)))
     = []"
proof -
  have h: "Some RECENT \<noteq> Some ON_DEMAND" by simp
  have e: "messages (handle sample_config makeInMemoryStore
      (MessagingHistorySet [sample_chat ''5511999@s.whatsapp.net'' (Some 1700000000) None] [] []
         True (Some RECENT))) = []"
    by (simp add: on_messaging_history_set_def Let_def split_beta log_message_def
        makeInMemoryStore_def)
  note t = latest_history_sync_replaces[OF h, of sample_config
      "run sample_config makeInMemoryStore
         [MessagesUpsert [sample_message ''5511888@s.whatsapp.net'' ''M'' None ''old''] ''notify'']"
      "[sample_chat ''5511999@s.whatsapp.net'' (Some 1700000000) None]" "[]" "[]"
      "sample_chat ''5511999@s.whatsapp.net'' (Some 1700000000) None"]
  note a = t[THEN conjunct2, THEN conjunct2, THEN conjunct1]
  note b = t[THEN conjunct2, THEN conjunct1]
  show ?thesis unfolding a b e by simp
qed

text \<open>
  C3 as stated fails for the sync type \<open>ON_DEMAND\<close>: the event is ignored, so with
  \<open>isLatest = true\<close> and the chat \<open>A\<close> only, the store keeps its chat \<open>B\<close> and its old message.
\<close>

theorem latest_history_sync_counterexample:
  "kdb_all (chats (handle sample_config
      (run sample_config makeInMemoryStore
         [MessagesUpsert [sample_message ''5511888@s.whatsapp.net'' ''M'' None ''old''] ''notify''])
      (MessagingHistorySet [sample_chat ''5511999@s.whatsapp.net'' (Some 1700000000) None] [] []
         True (Some ON_DEMAND))))
     = [sample_chat ''5511888@s.whatsapp.net'' (Some 0) (Some 1)]
   \<and> loadMessage (handle sample_config
      (run sample_config makeInMemoryStore
         [MessagesUpsert [sample_message ''5511888@s.whatsapp.net'' ''M'' None ''old''] ''notify''])
      (MessagingHistorySet [sample_chat ''5511999@s.whatsapp.net'' (Some 1700000000) None] [] []
         True (Some ON_DEMAND)))
      ''5511888@s.whatsapp.net'' ''M''
     = Some (sample_message ''5511888@s.whatsapp.net'' ''M'' None ''old'')"
  by code_simp

section \<open>The label cap (labels.edit)\<close>


lemma cleanup_loop_length: "length (cleanup_loop ks i m) \<le> length m"
proof (induction ks i m rule: cleanup_loop.induct)
  case (1 ks i m)
  show ?case
  proof (cases "2 * i < length ks")
    case True
    then have "length (cleanup_loop ks (Suc i) (AList.delete (ks ! i) m)) \<le> length (AList.delete (ks ! i) m)"
      by (rule 1)
    also have "\<dots> \<le> length m" by (rule AList.length_delete_le)
    finally show ?thesis using True by (subst cleanup_loop.simps) simp
  next
    case False
    then show ?thesis by (subst cleanup_loop.simps) simp
  qed
qed

lemma repo_cleanup_count: "repo_count (repo_cleanup r) \<le> repo_count r"
  by (simp add: repo_cleanup_def repo_count_def cleanup_loop_length)

lemma length_AList_update: "length (AList.update k v al) \<le> Suc (length al)"
  by (induction al) auto

lemma length_AList_update_present: "map_of al k = Some x \<Longrightarrow> length (AList.update k v al) = length al"
  by (induction al) (auto split: if_splits)

lemma repo_upsertById_count: "repo_count (repo_upsertById r i e) \<le> Suc (repo_count r)"
proof -
  have "repo_count (repo_upsertById r i e) \<le> repo_count (r\<lparr> entityMap := AList.update i e (entityMap r) \<rparr>)"
    unfolding repo_upsertById_def by (rule repo_cleanup_count)
  also have "\<dots> \<le> Suc (repo_count r)" by (simp add: repo_count_def length_AList_update)
  finally show ?thesis .
qed

lemma on_labels_edit_count:
  "repo_count (labels s) \<le> 20 \<Longrightarrow> repo_count (labels (on_labels_edit s l)) \<le> 20"
  using repo_upsertById_count[of "labels s" "label_id l" l]
  by (auto simp: on_labels_edit_def repo_deleteById_def repo_count_def log_message_def
      intro: order_trans[OF AList.length_delete_le])

lemma on_labels_update_count: "repo_count (labels (on_labels_update s us)) = repo_count (labels s)"
  unfolding on_labels_update_def
proof (induction us arbitrary: s)
  case Nil
  then show ?case by simp
next
  case (Cons u us)
  show ?case
    by (simp add: Cons.IH) (auto simp: repo_count_def repo_findById_def length_AList_update_present split: option.splits)
qed

lemma labels_chats_update_one [simp]: "labels (chats_update_one cfg s u) = labels s"
  by (simp add: chats_update_one_def split_beta log_message_def split: option.splits)

lemma labels_messages_update_one [simp]: "labels (messages_update_one s e) = labels s"
  by (simp add: messages_update_one_def split_beta Let_def log_message_def)

lemma labels_contacts_update_one:
  "contacts_update_one cfg s u = Inl s' \<or> contacts_update_one cfg s u = Inr s' \<Longrightarrow> labels s' = labels s"
  by (auto simp: contacts_update_one_def find_contact_def update_contact_def update_builtin_def
      split_beta Let_def log_message_def split: option.splits property.splits if_splits)

lemma labels_on_contacts_update [simp]: "labels (on_contacts_update cfg s us) = labels s"
proof (induction us arbitrary: s)
  case Nil
  then show ?case by simp
next
  case (Cons u us)
  show ?case
  proof (cases "contacts_update_one cfg s u")
    case (Inl s')
    then show ?thesis using labels_contacts_update_one[of cfg s u s'] by simp
  next
    case (Inr s')
    then show ?thesis using labels_contacts_update_one[of cfg s u s'] Cons.IH[of s'] by simp
  qed
qed

lemma foldl_preserves: "(\<And>s x. g (f s x) = g s) \<Longrightarrow> g (foldl f s xs) = g s"
  by (induction xs arbitrary: s) auto

lemma labels_on_chats_update [simp]: "labels (on_chats_update cfg s us) = labels s"
  unfolding on_chats_update_def by (rule foldl_preserves) simp

lemma labels_on_messages_update [simp]: "labels (on_messages_update s us) = labels s"
  unfolding on_messages_update_def by (rule foldl_preserves) simp

lemma labels_on_chats_delete [simp]: "labels (on_chats_delete s ds) = labels s"
  unfolding on_chats_delete_def by (rule foldl_preserves) simp

lemma labels_on_chats_upsert [simp]: "labels (on_chats_upsert cfg s cs) = labels s"
  by (simp add: on_chats_upsert_def)

lemma labels_on_messages_upsert [simp]: "labels (on_messages_upsert cfg s ms t) = labels s"
  unfolding on_messages_upsert_def
  by (auto intro!: foldl_preserves simp: Let_def)

lemma labels_on_groups_update [simp]: "labels (on_groups_update s us) = labels s"
  unfolding on_groups_update_def by (rule foldl_preserves) simp

lemma labels_on_messaging_history_set [simp]:
  "labels (on_messaging_history_set cfg s cs ns ms b t) = labels s"
  by (simp add: on_messaging_history_set_def Let_def split_beta log_message_def)

lemma labels_other [simp]:
  "labels (on_connection_update s u) = labels s"
  "labels (on_contacts_upsert s ns) = labels s"
  "labels (on_labels_association cfg s ty a) = labels s"
  "labels (on_presence_update s i p) = labels s"
  "labels (on_group_participants_update s i ps ac) = labels s"
  by (simp_all add: on_connection_update_def on_contacts_upsert_def on_labels_association_def
      on_presence_update_def on_group_participants_update_def log_message_def split: option.splits)

lemma handle_label_count:
  "repo_count (labels s) \<le> 20 \<Longrightarrow> (\<forall>ls. ev \<noteq> LabelsUpsert ls) \<Longrightarrow>
   repo_count (labels (handle cfg s ev)) \<le> 20"
  by (cases ev) (simp_all add: on_labels_edit_count on_labels_update_count)

lemma run_label_count:
  "repo_count (labels s) \<le> 20 \<Longrightarrow> (\<forall>ls. LabelsUpsert ls \<notin> set evs) \<Longrightarrow>
   repo_count (labels (run cfg s evs)) \<le> 20"
  unfolding run_def
proof (induction evs arbitrary: s)
  case Nil
  then show ?case by simp
next
  case (Cons ev evs)
  have "repo_count (labels (handle cfg s ev)) \<le> 20"
    using Cons.prems by (intro handle_label_count) auto
  then show ?case using Cons.prems(2) by (simp add: Cons.IH)
qed


lemma labels_edit_all_fresh:
  "distinct (map label_id ls) \<Longrightarrow> label_id ` set ls \<inter> fst ` set (entityMap (labels s)) = {} \<Longrightarrow>
   length (entityMap (labels s)) + length ls \<le> 20 \<Longrightarrow> 20 \<le> maxSize (labels s) \<Longrightarrow>
   \<forall>l \<in> set ls. \<not> truthy_bool (deleted l) \<Longrightarrow>
   labels (foldl (handle cfg) s (map LabelsEdit ls))
     = (labels s)\<lparr> entityMap := entityMap (labels s) @ map (\<lambda>l. (label_id l, l)) ls \<rparr>"
proof (induction ls arbitrary: s)
  case Nil
  then show ?case by simp
next
  case (Cons l ls)
  let ?s = "on_labels_edit s l"
  have fresh: "label_id l \<notin> fst ` set (entityMap (labels s))" using Cons.prems(2) by auto
  have step: "labels ?s = (labels s)\<lparr> entityMap := entityMap (labels s) @ [(label_id l, l)] \<rparr>"
    using Cons.prems(3,4,5) fresh
    by (simp add: on_labels_edit_def repo_count_def repo_upsertById_def update_fresh
        repo_cleanup_def)
  have "labels (foldl (handle cfg) ?s (map LabelsEdit ls))
      = (labels ?s)\<lparr> entityMap := entityMap (labels ?s) @ map (\<lambda>l. (label_id l, l)) ls \<rparr>"
  proof (rule Cons.IH)
    show "distinct (map label_id ls)" using Cons.prems(1) by simp
    show "label_id ` set ls \<inter> fst ` set (entityMap (labels ?s)) = {}"
      using Cons.prems(1,2) by (auto simp: step)
    show "length (entityMap (labels ?s)) + length ls \<le> 20" using Cons.prems(3) by (simp add: step)
    show "20 \<le> maxSize (labels ?s)" using Cons.prems(4) by (simp add: step)
    show "\<forall>l \<in> set ls. \<not> truthy_bool (deleted l)" using Cons.prems(5) by simp
  qed
  then show ?case by (simp add: step)
qed

text \<open>
  C6 (amended). The cap of 20 labels is that of \<open>labels.edit\<close>. Over every sequence of
  events without a \<open>labels.upsert\<close> event, from a store with at most 20 labels, the label
  count stays at most 20. On a new store, \<open>labels.edit\<close> events for at most 20 labels with
  distinct identities, none marked deleted, store them all, in order. With 20 labels
  stored, a \<open>labels.edit\<close> event for a label not marked deleted changes nothing but the log,
  which receives \<open>Labels count exceed\<close>: the label is rejected and none is evicted.
\<close>

theorem label_cap:
  "(repo_count (labels s) \<le> 20 \<and> (\<forall>ls. LabelsUpsert ls \<notin> set evs)
      \<longrightarrow> repo_count (labels (run cfg s evs)) \<le> 20)
   \<and> (distinct (map label_id ls) \<and> length ls \<le> 20 \<and> (\<forall>l \<in> set ls. \<not> truthy_bool (deleted l))
      \<longrightarrow> entityMap (labels (run cfg makeInMemoryStore (map LabelsEdit ls)))
            = map (\<lambda>l. (label_id l, l)) ls)
   \<and> (repo_count (labels s) = 20 \<and> \<not> truthy_bool (deleted l)
      \<longrightarrow> handle cfg s (LabelsEdit l) = log_message ''Labels count exceed'' s)"
proof (intro conjI impI)
  assume "repo_count (labels s) \<le> 20 \<and> (\<forall>ls. LabelsUpsert ls \<notin> set evs)"
  then show "repo_count (labels (run cfg s evs)) \<le> 20" by (simp add: run_label_count)
next
  assume a: "distinct (map label_id ls) \<and> length ls \<le> 20 \<and> (\<forall>l \<in> set ls. \<not> truthy_bool (deleted l))"
  have "labels (foldl (handle cfg) makeInMemoryStore (map LabelsEdit ls))
      = (labels makeInMemoryStore)\<lparr> entityMap := entityMap (labels makeInMemoryStore)
            @ map (\<lambda>l. (label_id l, l)) ls \<rparr>"
    using a by (intro labels_edit_all_fresh) (simp_all add: makeInMemoryStore_def new_ObjectRepository_def)
  then show "entityMap (labels (run cfg makeInMemoryStore (map LabelsEdit ls)))
      = map (\<lambda>l. (label_id l, l)) ls"
    by (simp add: run_def makeInMemoryStore_def new_ObjectRepository_def)
next
  assume "repo_count (labels s) = 20 \<and> \<not> truthy_bool (deleted l)"
  then show "handle cfg s (LabelsEdit l) = log_message ''Labels count exceed'' s"
    by (simp add: on_labels_edit_def)
qed

lemma sample_labels_distinct: "distinct (map label_id (sample_labels n))"
  unfolding sample_labels_def map_map comp_def
  by (rule iffD2[OF distinct_map]) (simp add: inj_on_def sample_label_def)

lemma sample_labels_not_deleted: "\<forall>l \<in> set (sample_labels n). \<not> truthy_bool (deleted l)"
  by (auto simp: sample_labels_def sample_label_def truthy_bool_def)

text \<open>
  Twenty \<open>labels.edit\<close> events for distinct labels on a new store leave 20 labels; the
  twenty-first is rejected and logged, and the count stays 20.
\<close>

theorem label_cap_witness:
  "repo_count (labels (run sample_config makeInMemoryStore (map LabelsEdit (sample_labels 20)))) = 20
   \<and> handle sample_config (run sample_config makeInMemoryStore (map LabelsEdit (sample_labels 20)))
        (LabelsEdit (sample_label ''new''))
     = log_message ''Labels count exceed''
        (run sample_config makeInMemoryStore (map LabelsEdit (sample_labels 20)))
   \<and> repo_count (labels (run sample_config makeInMemoryStore
        (map LabelsEdit (sample_labels 20) @ [LabelsEdit (sample_label ''new'')]))) \<le> 20"
proof -
  let ?s = "run sample_config makeInMemoryStore (map LabelsEdit (sample_labels 20))"
  have len: "length (sample_labels 20) = 20" by (simp add: sample_labels_def)
  have len': "length (sample_labels 20) \<le> 20" using len by simp
  have "entityMap (labels ?s) = map (\<lambda>l. (label_id l, l)) (sample_labels 20)"
    by (rule label_cap[of makeInMemoryStore "[]" sample_config "sample_labels 20"
          "sample_label ''new''", THEN conjunct2, THEN conjunct1, THEN mp,
          OF conjI[OF sample_labels_distinct conjI[OF len' sample_labels_not_deleted]]])
  then have c: "repo_count (labels ?s) = 20" by (simp add: repo_count_def len)
  have nd: "\<not> truthy_bool (deleted (sample_label ''new''))"
    by (simp add: sample_label_def truthy_bool_def)
  have r: "handle sample_config ?s (LabelsEdit (sample_label ''new''))
      = log_message ''Labels count exceed'' ?s"
    by (rule label_cap[of ?s "[]" sample_config "[]" "sample_label ''new''",
          THEN conjunct2, THEN conjunct2, THEN mp, OF conjI[OF c nd]])
  have c0: "repo_count (labels makeInMemoryStore) \<le> 20"
    by (simp add: makeInMemoryStore_def new_ObjectRepository_def repo_count_def)
  have no: "\<forall>ls. LabelsUpsert ls \<notin> set (map LabelsEdit (sample_labels 20) @ [LabelsEdit (sample_label ''new'')])"
    by auto
  have "repo_count (labels (run sample_config makeInMemoryStore
        (map LabelsEdit (sample_labels 20) @ [LabelsEdit (sample_label ''new'')]))) \<le> 20"
    by (rule label_cap[of makeInMemoryStore
          "map LabelsEdit (sample_labels 20) @ [LabelsEdit (sample_label ''new'')]" sample_config
          "[]" "sample_label ''new''", THEN conjunct1, THEN mp, OF conjI[OF c0 no]])
  then show ?thesis using c r by simp
qed

text \<open>
  C6 as stated fails: a \<open>labels.upsert\<close> event is not capped. With 21 distinct labels on a
  new store it leaves 21 labels.
\<close>

theorem label_cap_counterexample:
  "repo_count (labels (handle sample_config makeInMemoryStore (LabelsUpsert (sample_labels 21)))) = 21"
  by code_simp

section \<open>The fallback of contacts.update\<close>











section \<open>Persistence (toJSON and fromJSON)\<close>

text \<open>
  C2. After \<open>messages.upsert\<close> of the messages \<open>A\<close> and \<open>B\<close> of one chat and a \<open>messages.update\<close>
  for \<open>A\<close> whose update carries the key of \<open>B\<close>, the list holds two messages with the
  identity \<open>B\<close> and the lookup answers with the updated one (the former \<open>A\<close>). \<open>fromJSON\<close> of
  \<open>toJSON\<close> of that store, into a new store, rebuilds the lookup from the array, where the
  later message wins: \<open>loadMessage\<close> for \<open>B\<close> answers with the other message.
\<close>

theorem restore_changes_loadMessage:
  "loadMessage
     (run sample_config makeInMemoryStore
        [MessagesUpsert [sample_message ''5511999@s.whatsapp.net'' ''A'' (Some 3) ''hello'',
                         sample_message ''5511999@s.whatsapp.net'' ''B'' (Some 1) ''world''] ''append'',
         MessagesUpdate [(patch_key \<lparr> remoteJid = Some ''5511999@s.whatsapp.net'',
                                      key_id = Some ''B'', fromMe = None \<rparr>,
                          \<lparr> remoteJid = Some ''5511999@s.whatsapp.net'', key_id = Some ''A'',
                            fromMe = None \<rparr>)]])
     ''5511999@s.whatsapp.net'' ''B''
     = Some (sample_message ''5511999@s.whatsapp.net'' ''B'' (Some 3) ''hello'')
   \<and> loadMessage
     (fromJSON sample_config makeInMemoryStore (Some (toJSON
       (run sample_config makeInMemoryStore
        [MessagesUpsert [sample_message ''5511999@s.whatsapp.net'' ''A'' (Some 3) ''hello'',
                         sample_message ''5511999@s.whatsapp.net'' ''B'' (Some 1) ''world''] ''append'',
         MessagesUpdate [(patch_key \<lparr> remoteJid = Some ''5511999@s.whatsapp.net'',
                                      key_id = Some ''B'', fromMe = None \<rparr>,
                          \<lparr> remoteJid = Some ''5511999@s.whatsapp.net'', key_id = Some ''A'',
                            fromMe = None \<rparr>)]]))))
     ''5511999@s.whatsapp.net'' ''B''
     = Some (sample_message ''5511999@s.whatsapp.net'' ''B'' (Some 1) ''world'')"
  by code_simp

section \<open>The order of the chat collection\<close>


lemma hexw_length [simp]: "length (hexw w n) = w"
  by (induction w arbitrary: n) auto






































end
